theory Spec2Isabelle
  imports Main "HOL-Library.AList" "HOL-Library.Sublist"
begin

section \<open>Python values, exceptions and paths\<close>

text \<open>
  The development embeds the model verification and update functions of
  \<^verbatim>\<open>src/Zonos/zonos.py\<close>.  An exception is a value: a function that can raise
  returns \<open>exn + 'a\<close>, with \<open>Inl\<close> for the exception.  \<open>SystemExit\<close> (raised by
  \<^verbatim>\<open>sys.exit\<close>) and \<open>KeyboardInterrupt\<close> derive from \<^verbatim>\<open>BaseException\<close> only, so a
  handler \<^verbatim>\<open>except Exception\<close> does not catch them.  The string carried by
  \<open>Exception\<close> is \<^verbatim>\<open>str(e)\<close> (abbreviated where Python's text has quotes).
\<close>

datatype exn_class =
    TypeError | AttributeError | KeyError | ValueError | JSONDecodeError
  | FileNotFoundError | NotADirectoryError | IsADirectoryError | PermissionError
  | ImportError | OtherError

datatype exn = Exception exn_class string | SystemExit int | KeyboardInterrupt

fun is_Exception :: "exn \<Rightarrow> bool" where
  "is_Exception (Exception c m) = True"
| "is_Exception (SystemExit n) = False"
| "is_Exception KeyboardInterrupt = False"

fun exn_in :: "exn_class list \<Rightarrow> exn \<Rightarrow> bool" where
  "exn_in cs (Exception c m) = (c \<in> set cs)"
| "exn_in cs (SystemExit n) = False"
| "exn_in cs KeyboardInterrupt = False"

fun str_of_exn :: "exn \<Rightarrow> string" where
  "str_of_exn (Exception c m) = m"
| "str_of_exn (SystemExit n) = []"
| "str_of_exn KeyboardInterrupt = []"

text \<open>
  A path is the list of its components below the root (every path of the script is
  absolute: it is built from \<^verbatim>\<open>SCRIPT_DIR\<close>).  \<open>py_truediv\<close> is \<^verbatim>\<open>Path / str\<close>:
  the string is split at \<^verbatim>\<open>/\<close>, empty and \<^verbatim>\<open>.\<close> components are dropped, and a string
  that starts with \<^verbatim>\<open>/\<close> replaces the path.
\<close>

type_synonym path = "string list"

fun split_on :: "char \<Rightarrow> string \<Rightarrow> string list" where
  "split_on sep [] = [[]]"
| "split_on sep (c # cs) =
     (if c = sep then [] # split_on sep cs
      else (case split_on sep cs of [] \<Rightarrow> [[c]] | w # ws \<Rightarrow> (c # w) # ws))"

definition py_truediv :: "path \<Rightarrow> string \<Rightarrow> path" where
  "py_truediv p s =
     (let parts = filter (\<lambda>x. x \<noteq> [] \<and> x \<noteq> ''.'') (split_on CHR ''/'' s)
      in (case s of [] \<Rightarrow> p | c # cs \<Rightarrow> if c = CHR ''/'' then parts else p @ parts))"

definition str_of_path :: "path \<Rightarrow> string" where
  "str_of_path p = (if p = [] then ''/'' else concat (map (\<lambda>c. CHR ''/'' # c) p))"

definition path_name :: "path \<Rightarrow> string" where
  "path_name p = (case rev p of [] \<Rightarrow> [] | c # cs \<Rightarrow> c)"

text \<open>\<^verbatim>\<open>s.replace("/", "--")\<close>, \<^verbatim>\<open>s.split("/")[-1]\<close> and \<^verbatim>\<open>a in b\<close> on strings.\<close>

definition replace_slash :: "string \<Rightarrow> string" where
  "replace_slash s = concat (map (\<lambda>c. if c = CHR ''/'' then ''--'' else [c]) s)"

definition last_segment :: "string \<Rightarrow> string" where
  "last_segment s = rev (takeWhile (\<lambda>c. c \<noteq> CHR ''/'') (rev s))"

fun str_contains :: "string \<Rightarrow> string \<Rightarrow> bool" where
  "str_contains [] xs = (xs = [])"
| "str_contains (y # ys) xs = (prefix xs (y # ys) \<or> str_contains ys xs)"

text \<open>
  The operands of the arithmetic in \<^verbatim>\<open>get_model_cache_path\<close> are strings and
  \<^verbatim>\<open>Path\<close> objects.  \<^verbatim>\<open>Path\<close> defines \<^verbatim>\<open>/\<close> and no \<^verbatim>\<open>+\<close>; \<^verbatim>\<open>str + Path\<close> is no
  concatenation either.
\<close>

datatype pyval = PStr string | PPath path

fun py_add :: "pyval \<Rightarrow> pyval \<Rightarrow> exn + pyval" where
  "py_add (PStr a) (PStr b) = Inr (PStr (a @ b))"
| "py_add (PStr a) (PPath q) =
     Inl (Exception TypeError ''can only concatenate str (not PosixPath) to str'')"
| "py_add (PPath p) v =
     Inl (Exception TypeError ''unsupported operand type(s) for +: PosixPath and str'')"

section \<open>The file tree\<close>

text \<open>
  A node is a file (with its content as text and whether the process may open it)
  or a directory (with the names \<^verbatim>\<open>iterdir\<close> yields, in the order it yields them);
  both carry \<^verbatim>\<open>st_mtime\<close>.
\<close>

datatype node =
    File (mtime: int) (accessible: bool) (content: string)
  | Dir (mtime: int) (entries: "string list")

type_synonym filesys = "path \<Rightarrow> node option"

definition path_exists :: "filesys \<Rightarrow> path \<Rightarrow> bool" where
  "path_exists fs p = (fs p \<noteq> None)"

definition is_dir :: "filesys \<Rightarrow> path \<Rightarrow> bool" where
  "is_dir fs p = (case fs p of Some (Dir t es) \<Rightarrow> True | _ \<Rightarrow> False)"

definition iterdir :: "filesys \<Rightarrow> path \<Rightarrow> exn + path list" where
  "iterdir fs p =
     (case fs p of
        None \<Rightarrow> Inl (Exception FileNotFoundError (str_of_path p))
      | Some (File t r c) \<Rightarrow> Inl (Exception NotADirectoryError (str_of_path p))
      | Some (Dir t es) \<Rightarrow> Inr (map (\<lambda>e. p @ [e]) es))"

definition stat_mtime :: "filesys \<Rightarrow> path \<Rightarrow> exn + int" where
  "stat_mtime fs p =
     (case fs p of
        None \<Rightarrow> Inl (Exception FileNotFoundError (str_of_path p))
      | Some n \<Rightarrow> Inr (mtime n))"


text \<open>\<^verbatim>\<open>open(p, "r")\<close> and \<^verbatim>\<open>open(p, "rb")\<close> followed by reading the whole file.\<close>

definition read_file :: "filesys \<Rightarrow> path \<Rightarrow> exn + string" where
  "read_file fs p =
     (case fs p of
        None \<Rightarrow> Inl (Exception FileNotFoundError (str_of_path p))
      | Some (Dir t es) \<Rightarrow> Inl (Exception IsADirectoryError (str_of_path p))
      | Some (File t r c) \<Rightarrow>
          if r then Inr c else Inl (Exception PermissionError (str_of_path p)))"

section \<open>The cache path resolver\<close>

text \<open>
  \<^verbatim>\<open>get_model_cache_path\<close> first builds the list
  \<^verbatim>\<open>
  possible_paths = [
      models_dir / "models--" + model_name.replace("/", "--"),
      models_dir / model_name.replace("/", "--"),
      models_dir / model_name.split("/")[-1],
  ]
  \<close>
  In Python \<^verbatim>\<open>/\<close> binds tighter than \<^verbatim>\<open>+\<close>, so the first element is
  \<^verbatim>\<open>(models_dir / "models--") + model_name.replace("/", "--")\<close>: a \<^verbatim>\<open>Path\<close> plus a
  \<^verbatim>\<open>str\<close>.  The elements are evaluated left to right.
\<close>

definition possible_paths :: "string \<Rightarrow> path \<Rightarrow> exn + pyval list" where
  "possible_paths model_name models_dir =
     (case py_add (PPath (py_truediv models_dir ''models--''))
                  (PStr (replace_slash model_name)) of
        Inl e \<Rightarrow> Inl e
      | Inr p1 \<Rightarrow>
          Inr [p1,
               PPath (py_truediv models_dir (replace_slash model_name)),
               PPath (py_truediv models_dir (last_segment model_name))])"

text \<open>\<^verbatim>\<open>for path in possible_paths: if path.exists(): return path\<close>\<close>

fun first_existing :: "filesys \<Rightarrow> pyval list \<Rightarrow> exn + path option" where
  "first_existing fs [] = Inr None"
| "first_existing fs (PPath p # vs) =
     (if path_exists fs p then Inr (Some p) else first_existing fs vs)"
| "first_existing fs (PStr s # vs) =
     Inl (Exception AttributeError ''str object has no attribute exists'')"

text \<open>
  \<^verbatim>\<open>
  for subdir in models_dir.iterdir():
      if subdir.is_dir() and model_name.split("/")[-1] in subdir.name:
          return subdir
  return None
  \<close>
\<close>

fun scan_subdirs :: "filesys \<Rightarrow> string \<Rightarrow> path list \<Rightarrow> path option" where
  "scan_subdirs fs model_name [] = None"
| "scan_subdirs fs model_name (subdir # rest) =
     (if is_dir fs subdir \<and> str_contains (path_name subdir) (last_segment model_name)
      then Some subdir else scan_subdirs fs model_name rest)"

definition get_model_cache_path :: "filesys \<Rightarrow> string \<Rightarrow> path \<Rightarrow> exn + path option" where
  "get_model_cache_path fs model_name models_dir =
     (case possible_paths model_name models_dir of
        Inl e \<Rightarrow> Inl e
      | Inr ps \<Rightarrow>
          (case first_existing fs ps of
             Inl e \<Rightarrow> Inl e
           | Inr (Some p) \<Rightarrow> Inr (Some p)
           | Inr None \<Rightarrow>
               (case iterdir fs models_dir of
                  Inl e \<Rightarrow> Inl e
                | Inr subdirs \<Rightarrow> Inr (scan_subdirs fs model_name subdirs))))"

section \<open>JSON documents and library functions\<close>

text \<open>
  What \<^verbatim>\<open>json.load\<close> returns.  An object is the list of its items in insertion order,
  as a Python \<^verbatim>\<open>dict\<close> keeps them.
\<close>

datatype json =
    JNull | JBool bool | JNum int | JStr string
  | JArr "json list" | JObj "(string \<times> json) list"

text \<open>\<^verbatim>\<open>k in v\<close>, \<^verbatim>\<open>v[k]\<close> and \<^verbatim>\<open>v[k] = x\<close> for a string \<open>k\<close> and a loaded value \<open>v\<close>.\<close>

definition py_contains :: "json \<Rightarrow> string \<Rightarrow> exn + bool" where
  "py_contains v k =
     (case v of
        JObj kvs \<Rightarrow> Inr (map_of kvs k \<noteq> None)
      | JArr xs \<Rightarrow> Inr (JStr k \<in> set xs)
      | JStr s \<Rightarrow> Inr (str_contains s k)
      | _ \<Rightarrow> Inl (Exception TypeError ''argument is not iterable''))"

definition py_getitem :: "json \<Rightarrow> string \<Rightarrow> exn + json" where
  "py_getitem v k =
     (case v of
        JObj kvs \<Rightarrow>
          (case map_of kvs k of None \<Rightarrow> Inl (Exception KeyError k) | Some x \<Rightarrow> Inr x)
      | JArr xs \<Rightarrow> Inl (Exception TypeError ''list indices must be integers or slices, not str'')
      | JStr s \<Rightarrow> Inl (Exception TypeError ''string indices must be integers, not str'')
      | _ \<Rightarrow> Inl (Exception TypeError ''object is not subscriptable''))"

definition py_setitem :: "json \<Rightarrow> string \<Rightarrow> json \<Rightarrow> exn + json" where
  "py_setitem v k x =
     (case v of
        JObj kvs \<Rightarrow> Inr (JObj (AList.update k x kvs))
      | JArr xs \<Rightarrow> Inl (Exception TypeError ''list indices must be integers or slices, not str'')
      | _ \<Rightarrow> Inl (Exception TypeError ''object does not support item assignment''))"

text \<open>
  The standard library functions the script calls are parameters of the development:
  the SHA-256 hex digest of a content, \<^verbatim>\<open>json.load\<close> (\<open>None\<close> is \<^verbatim>\<open>JSONDecodeError\<close>),
  \<^verbatim>\<open>json.dump\<close>, \<^verbatim>\<open>int\<close> on a string (\<open>None\<close> is \<^verbatim>\<open>ValueError\<close>) and the reading of
  the clock, \<^verbatim>\<open>datetime.now().isoformat()\<close>.
\<close>

record pylib =
  sha256_hexdigest :: "string \<Rightarrow> string"
  json_loads :: "string \<Rightarrow> json option"
  json_dumps :: "json \<Rightarrow> string"
  int_of_str :: "string \<Rightarrow> int option"
  now_isoformat :: string

section \<open>The artifact registry\<close>

record model_config =
  name :: string
  description :: string
  files_to_check :: "string list"

type_synonym registry = "(string \<times> model_config) list"

definition MODEL_CONFIGS :: registry where
  "MODEL_CONFIGS =
     [(''Zyphra/Zonos-v0.1-hybrid'',
        \<lparr>name = ''hybrid_model'', description = ''Zonos v0.1 Hybrid Model'',
         files_to_check = [''config.json'', ''pytorch_model.bin'', ''tokenizer.json'']\<rparr>),
      (''Zyphra/Zonos-v0.1-transformer'',
        \<lparr>name = ''transformer_model'', description = ''Zonos v0.1 Transformer Model'',
         files_to_check = [''config.json'', ''pytorch_model.bin'', ''tokenizer.json'']\<rparr>)]"

section \<open>The integrity verifier\<close>

text \<open>
  \<^verbatim>\<open>calculate_file_hash\<close> returns the empty string when the file is missing or may
  not be read; any other failure of \<^verbatim>\<open>open\<close> propagates.
\<close>

definition calculate_file_hash :: "pylib \<Rightarrow> filesys \<Rightarrow> path \<Rightarrow> exn + string" where
  "calculate_file_hash L fs file_path =
     (case read_file fs file_path of
        Inl e \<Rightarrow> if exn_in [FileNotFoundError, PermissionError] e then Inr [] else Inl e
      | Inr c \<Rightarrow> Inr (sha256_hexdigest L c))"

text \<open>
  \<^verbatim>\<open>max(snapshots, key=lambda x: x.stat().st_mtime)\<close>: the keys are computed in
  order, and the first element with the greatest key is returned.
\<close>

fun max_by_mtime :: "filesys \<Rightarrow> path \<Rightarrow> int \<Rightarrow> path list \<Rightarrow> exn + path" where
  "max_by_mtime fs best kb [] = Inr best"
| "max_by_mtime fs best kb (d # ds) =
     (case stat_mtime fs d of
        Inl e \<Rightarrow> Inl e
      | Inr k \<Rightarrow> if kb < k then max_by_mtime fs d k ds else max_by_mtime fs best kb ds)"

definition py_max_mtime :: "filesys \<Rightarrow> path list \<Rightarrow> exn + path" where
  "py_max_mtime fs ds =
     (case ds of
        [] \<Rightarrow> Inl (Exception ValueError ''max() arg is an empty sequence'')
      | d # rest \<Rightarrow>
          (case stat_mtime fs d of Inl e \<Rightarrow> Inl e | Inr k \<Rightarrow> max_by_mtime fs d k rest))"

text \<open>
  The block that \<^verbatim>\<open>verify_model_integrity\<close> and \<^verbatim>\<open>save_model_verification\<close> share:
  \<^verbatim>\<open>
  model_files_dir = cache_path
  if (cache_path / "snapshots").exists():
      snapshots = [d for d in (cache_path / "snapshots").iterdir() if d.is_dir()]
      if snapshots:
          model_files_dir = max(snapshots, key=lambda x: x.stat().st_mtime)
  \<close>
\<close>

definition model_files_dir :: "filesys \<Rightarrow> path \<Rightarrow> exn + path" where
  "model_files_dir fs cache_path =
     (if path_exists fs (py_truediv cache_path ''snapshots'') then
        (case iterdir fs (py_truediv cache_path ''snapshots'') of
           Inl e \<Rightarrow> Inl e
         | Inr ds \<Rightarrow>
             (let snapshots = filter (is_dir fs) ds
              in if snapshots \<noteq> [] then py_max_mtime fs snapshots else Inr cache_path))
      else Inr cache_path)"

text \<open>
  The loop over \<^verbatim>\<open>files_to_check\<close>.  \<open>stored_hashes\<close> is
  \<^verbatim>\<open>verification_data[model_key]\<close>, the whole entry of the artifact.
\<close>

fun verify_files :: "pylib \<Rightarrow> filesys \<Rightarrow> path \<Rightarrow> json \<Rightarrow> string list \<Rightarrow> exn + bool" where
  "verify_files L fs dir stored_hashes [] = Inr True"
| "verify_files L fs dir stored_hashes (file_name # rest) =
     (if \<not> path_exists fs (py_truediv dir file_name) then Inr False
      else
        (case calculate_file_hash L fs (py_truediv dir file_name) of
           Inl e \<Rightarrow> Inl e
         | Inr current_hash \<Rightarrow>
             if current_hash = [] then Inr False
             else
               (case py_contains stored_hashes file_name of
                  Inl e \<Rightarrow> Inl e
                | Inr False \<Rightarrow> Inr False
                | Inr True \<Rightarrow>
                    (case py_getitem stored_hashes file_name of
                       Inl e \<Rightarrow> Inl e
                     | Inr h \<Rightarrow>
                         if h \<noteq> JStr current_hash then Inr False
                         else verify_files L fs dir stored_hashes rest))))"

text \<open>\<^verbatim>\<open>verify_model_integrity\<close> from the result of the resolver on.\<close>

definition verify_resolved ::
  "pylib \<Rightarrow> filesys \<Rightarrow> model_config \<Rightarrow> path option \<Rightarrow> json \<Rightarrow> exn + bool" where
  "verify_resolved L fs cfg cache_path verification_data =
     (case cache_path of
        None \<Rightarrow> Inr False
      | Some cp \<Rightarrow>
          if \<not> path_exists fs cp then Inr False
          else
            (case py_contains verification_data (name cfg) of
               Inl e \<Rightarrow> Inl e
             | Inr False \<Rightarrow> Inr False
             | Inr True \<Rightarrow>
                 (case py_getitem verification_data (name cfg) of
                    Inl e \<Rightarrow> Inl e
                  | Inr stored_hashes \<Rightarrow>
                      (case model_files_dir fs cp of
                         Inl e \<Rightarrow> Inl e
                       | Inr dir \<Rightarrow>
                           verify_files L fs dir stored_hashes (files_to_check cfg)))))"

definition verify_model_integrity ::
  "pylib \<Rightarrow> registry \<Rightarrow> filesys \<Rightarrow> string \<Rightarrow> path \<Rightarrow> json \<Rightarrow> exn + bool" where
  "verify_model_integrity L cfgs fs model_name models_dir verification_data =
     (case map_of cfgs model_name of
        None \<Rightarrow> Inr False
      | Some cfg \<Rightarrow>
          (case get_model_cache_path fs model_name models_dir of
             Inl e \<Rightarrow> Inl e
           | Inr cache_path \<Rightarrow> verify_resolved L fs cfg cache_path verification_data))"

section \<open>The verification store\<close>

definition load_verification_data :: "pylib \<Rightarrow> filesys \<Rightarrow> path \<Rightarrow> exn + json" where
  "load_verification_data L fs verification_file =
     (if \<not> path_exists fs verification_file then Inr (JObj [])
      else
        (case read_file fs verification_file of
           Inl e \<Rightarrow> if exn_in [JSONDecodeError, FileNotFoundError] e then Inr (JObj []) else Inl e
         | Inr text \<Rightarrow>
             (case json_loads L text of None \<Rightarrow> Inr (JObj []) | Some doc \<Rightarrow> Inr doc)))"

text \<open>
  \<^verbatim>\<open>open(p, "w")\<close> followed by writing the whole text.  The parent must be a
  directory; a new name is added to it.  No modelled function reads the \<open>mtime\<close> of a
  file, so a new file gets \<open>0\<close>.
\<close>

definition parent :: "path \<Rightarrow> path" where
  "parent p = butlast p"

definition write_file :: "filesys \<Rightarrow> path \<Rightarrow> string \<Rightarrow> exn + filesys" where
  "write_file fs p s =
     (case fs (parent p) of
        None \<Rightarrow> Inl (Exception FileNotFoundError (str_of_path p))
      | Some (File t a c) \<Rightarrow> Inl (Exception NotADirectoryError (str_of_path p))
      | Some (Dir t es) \<Rightarrow>
          (case fs p of
             Some (Dir t' es') \<Rightarrow> Inl (Exception IsADirectoryError (str_of_path p))
           | Some (File t' a c) \<Rightarrow>
               if a then Inr (fs(p \<mapsto> File t' a s))
               else Inl (Exception PermissionError (str_of_path p))
           | None \<Rightarrow>
               Inr (fs(p \<mapsto> File 0 True s,
                       parent p \<mapsto> Dir t (es @ [path_name p])))))"

text \<open>
  \<^verbatim>\<open>
  for file_name in model_config["files_to_check"]:
      file_path = model_files_dir / file_name
      if file_path.exists():
          model_hashes[file_name] = calculate_file_hash(file_path)
  \<close>
\<close>

fun collect_hashes ::
  "pylib \<Rightarrow> filesys \<Rightarrow> path \<Rightarrow> string list \<Rightarrow> (string \<times> json) list \<Rightarrow> exn + (string \<times> json) list" where
  "collect_hashes L fs dir [] model_hashes = Inr model_hashes"
| "collect_hashes L fs dir (file_name # rest) model_hashes =
     (if path_exists fs (py_truediv dir file_name) then
        (case calculate_file_hash L fs (py_truediv dir file_name) of
           Inl e \<Rightarrow> Inl e
         | Inr h \<Rightarrow> collect_hashes L fs dir rest (AList.update file_name (JStr h) model_hashes))
      else collect_hashes L fs dir rest model_hashes)"

definition verification_record :: "pylib \<Rightarrow> (string \<times> json) list \<Rightarrow> string \<Rightarrow> path \<Rightarrow> json" where
  "verification_record L model_hashes model_name cache_path =
     JObj [(''hashes'', JObj model_hashes),
           (''model_name'', JStr model_name),
           (''download_time'', JStr (now_isoformat L)),
           (''cache_path'', JStr (str_of_path cache_path))]"

text \<open>
  \<^verbatim>\<open>save_model_verification\<close> from the resolved cache path on.  A failure of the
  final write is logged and swallowed (\<^verbatim>\<open>except Exception\<close>);
  \<^verbatim>\<open>ensure_file_permissions\<close> changes owner and mode only and swallows its own errors.
\<close>

definition save_resolved ::
  "pylib \<Rightarrow> filesys \<Rightarrow> string \<Rightarrow> model_config \<Rightarrow> json \<Rightarrow> path \<Rightarrow> path \<Rightarrow> exn + filesys" where
  "save_resolved L fs model_name cfg verification_data cache_path verification_file =
     (case model_files_dir fs cache_path of
        Inl e \<Rightarrow> Inl e
      | Inr dir \<Rightarrow>
          (case collect_hashes L fs dir (files_to_check cfg) [] of
             Inl e \<Rightarrow> Inl e
           | Inr model_hashes \<Rightarrow>
               (case py_setitem verification_data (name cfg)
                       (verification_record L model_hashes model_name cache_path) of
                  Inl e \<Rightarrow> Inl e
                | Inr doc \<Rightarrow>
                    (case write_file fs verification_file (json_dumps L doc) of
                       Inl e \<Rightarrow> if is_Exception e then Inr fs else Inl e
                     | Inr fs' \<Rightarrow> Inr fs'))))"

definition save_model_verification ::
  "pylib \<Rightarrow> registry \<Rightarrow> filesys \<Rightarrow> string \<Rightarrow> path \<Rightarrow> path \<Rightarrow> exn + filesys" where
  "save_model_verification L cfgs fs model_name models_dir verification_file =
     (case map_of cfgs model_name of
        None \<Rightarrow> Inr fs
      | Some cfg \<Rightarrow>
          (case (if path_exists fs verification_file then
                   (case read_file fs verification_file of
                      Inl e \<Rightarrow>
                        if exn_in [JSONDecodeError, FileNotFoundError] e
                        then Inr (JObj []) else Inl e
                    | Inr text \<Rightarrow>
                        (case json_loads L text of
                           None \<Rightarrow> Inr (JObj []) | Some doc \<Rightarrow> Inr doc))
                 else Inr (JObj [])) of
             Inl e \<Rightarrow> Inl e
           | Inr verification_data \<Rightarrow>
               (case get_model_cache_path fs model_name models_dir of
                  Inl e \<Rightarrow> Inl e
                | Inr None \<Rightarrow> Inr fs
                | Inr (Some cache_path) \<Rightarrow>
                    save_resolved L fs model_name cfg verification_data
                      cache_path verification_file)))"

section \<open>The world of the script and its collaborators\<close>

text \<open>
  The state the script runs in is the file tree and a trace: the calls of
  \<^verbatim>\<open>Zonos.from_pretrained\<close> (\<open>FetchCall\<close> for a download, \<open>ProbeCall\<close> for the
  probe of the update check), the commands handed to \<^verbatim>\<open>subprocess\<close> and the log lines
  that report an outcome, in the order they happen.  Progress lines and \<^verbatim>\<open>print\<close>
  output are not recorded; a message is recorded without its leading emoji.

  The collaborators are parameters: the import of \<^verbatim>\<open>torch\<close> and \<^verbatim>\<open>zonos\<close> (it may
  raise), the fetch call (it may raise, and it changes the file tree either way), a
  started process (its return code and the lines it prints, or the exception of a
  launch that fails; the answer may depend on everything that happened before) and
  the line the operator types.  A process does not touch the part of the file tree
  that is modelled (the cache root and the existence of the repository directory).
\<close>

datatype event =
    FetchCall string | ProbeCall string | Ran "string list" | Logged string string

record world =
  tree :: filesys
  trace :: "event list"

fun fetch_calls_of :: "event list \<Rightarrow> string list" where
  "fetch_calls_of [] = []"
| "fetch_calls_of (FetchCall m # es) = m # fetch_calls_of es"
| "fetch_calls_of (ProbeCall m # es) = fetch_calls_of es"
| "fetch_calls_of (Ran c # es) = fetch_calls_of es"
| "fetch_calls_of (Logged l s # es) = fetch_calls_of es"

definition fetch_calls :: "world \<Rightarrow> string list" where
  "fetch_calls w = fetch_calls_of (trace w)"

definition log :: "string \<Rightarrow> string \<Rightarrow> world \<Rightarrow> world" where
  "log level message w = w\<lparr>trace := trace w @ [Logged level message]\<rparr>"

record externals =
  import_modules :: "exn option"
  from_pretrained :: "string \<Rightarrow> filesys \<Rightarrow> exn option \<times> filesys"
  probe_pretrained :: "string \<Rightarrow> filesys \<Rightarrow> exn option \<times> filesys"
  run_process :: "event list \<Rightarrow> string list \<Rightarrow> exn + (int \<times> string list)"
  user_input :: string

definition REPO_NAME :: string where
  "REPO_NAME = ''Zonos''"

definition MODELS_DOWNLOAD_DIR :: string where
  "MODELS_DOWNLOAD_DIR = ''zonos_download_models''"

definition MODEL_VERIFICATION_FILE :: string where
  "MODEL_VERIFICATION_FILE = ''model_verification.json''"

section \<open>The synchronisation of the models\<close>

text \<open>
  \<^verbatim>\<open>ensure_directory_permissions\<close> creates a missing directory with its parents and
  swallows every exception; the change of owner and mode is not modelled.
  \<^verbatim>\<open>setup_environment_variables\<close> calls it on the cache root; the environment
  variables it sets are not modelled.
\<close>

definition add_dir :: "filesys \<Rightarrow> path \<Rightarrow> string \<Rightarrow> filesys" where
  "add_dir fs base c =
     (case fs base of
        Some (Dir t es) \<Rightarrow> fs(base @ [c] \<mapsto> Dir 0 [], base \<mapsto> Dir t (es @ [c]))
      | _ \<Rightarrow> fs(base @ [c] \<mapsto> Dir 0 []))"

fun mkdirs :: "filesys \<Rightarrow> path \<Rightarrow> string list \<Rightarrow> filesys option" where
  "mkdirs fs base [] = Some fs"
| "mkdirs fs base (c # cs) =
     (case fs (base @ [c]) of
        Some (Dir t es) \<Rightarrow> mkdirs fs (base @ [c]) cs
      | Some (File t a x) \<Rightarrow> None
      | None \<Rightarrow> mkdirs (add_dir fs base c) (base @ [c]) cs)"

definition ensure_directory_permissions :: "filesys \<Rightarrow> path \<Rightarrow> filesys" where
  "ensure_directory_permissions fs directory =
     (if \<not> path_exists fs directory then
        (case mkdirs fs [] directory of None \<Rightarrow> fs | Some fs' \<Rightarrow> fs')
      else fs)"

definition setup_environment_variables :: "filesys \<Rightarrow> path \<Rightarrow> filesys" where
  "setup_environment_variables fs models_dir = ensure_directory_permissions fs models_dir"

text \<open>
  The loop of \<^verbatim>\<open>download_models\<close> over the registry, with the functions it calls as
  arguments: the verifier, \<^verbatim>\<open>save_model_verification\<close>, the resolver (called again
  for \<^verbatim>\<open>fix_ownership_recursive\<close>, which changes owners only and swallows its
  errors) and the fetch call.  The inner handler logs and re-raises.  The result is
  the local list \<^verbatim>\<open>downloaded_models\<close>.
\<close>

fun download_loop ::
  "(string \<Rightarrow> filesys \<Rightarrow> exn + bool) \<Rightarrow> (string \<Rightarrow> filesys \<Rightarrow> exn + filesys) \<Rightarrow>
   (string \<Rightarrow> filesys \<Rightarrow> exn + path option) \<Rightarrow>
   (string \<Rightarrow> filesys \<Rightarrow> exn option \<times> filesys) \<Rightarrow>
   string list \<Rightarrow> world \<Rightarrow> string list \<Rightarrow> (exn + string list) \<times> world" where
  "download_loop verify save resolve fetch [] w downloaded_models = (Inr downloaded_models, w)"
| "download_loop verify save resolve fetch (model_name # rest) w downloaded_models =
     (case verify model_name (tree w) of
        Inl e \<Rightarrow> (Inl e, w)
      | Inr True \<Rightarrow> download_loop verify save resolve fetch rest w downloaded_models
      | Inr False \<Rightarrow>
          (case fetch model_name (tree w) of
             (Some e, fs1) \<Rightarrow>
               (Inl e, w\<lparr>tree := fs1, trace := trace w @ [FetchCall model_name]\<rparr>)
           | (None, fs1) \<Rightarrow>
               (case save model_name fs1 of
                  Inl e \<Rightarrow>
                    (Inl e, w\<lparr>tree := fs1, trace := trace w @ [FetchCall model_name]\<rparr>)
                | Inr fs2 \<Rightarrow>
                    (case resolve model_name fs2 of
                       Inl e \<Rightarrow>
                         (Inl e, w\<lparr>tree := fs2, trace := trace w @ [FetchCall model_name]\<rparr>)
                     | Inr model_cache_path \<Rightarrow>
                         download_loop verify save resolve fetch rest
                           (w\<lparr>tree := fs2, trace := trace w @ [FetchCall model_name]\<rparr>)
                           (downloaded_models @ [model_name])))))"

text \<open>
  The outer handlers of \<^verbatim>\<open>download_models\<close>: \<^verbatim>\<open>except ImportError\<close> and
  \<^verbatim>\<open>except Exception\<close> both log and call \<^verbatim>\<open>sys.exit(1)\<close>.
\<close>

definition exit_on_exception :: "(exn + 'a) \<times> world \<Rightarrow> (exn + 'a) \<times> world" where
  "exit_on_exception r =
     (case r of
        (Inl e, w) \<Rightarrow> if is_Exception e then (Inl (SystemExit 1), w) else (Inl e, w)
      | (Inr v, w) \<Rightarrow> (Inr v, w))"

text \<open>What a Python call returns: \<^verbatim>\<open>None\<close> or a list of artifact identities.\<close>

datatype pyret = PyNone | PyList "string list"

definition download_models ::
  "pylib \<Rightarrow> externals \<Rightarrow> registry \<Rightarrow> path \<Rightarrow> world \<Rightarrow> (exn + pyret) \<times> world" where
  "download_models L X cfgs models_dir w =
     (let w1 = w\<lparr>tree := ensure_directory_permissions
                           (setup_environment_variables (tree w) models_dir) models_dir\<rparr>;
          verification_file = py_truediv models_dir MODEL_VERIFICATION_FILE
      in (case load_verification_data L (tree w1) verification_file of
            Inl e \<Rightarrow> (Inl e, w1)
          | Inr verification_data \<Rightarrow>
              (case exit_on_exception
                      (case import_modules X of
                         Some e \<Rightarrow> (Inl e, w1)
                       | None \<Rightarrow>
                           download_loop
                             (\<lambda>model_name fs. verify_model_integrity L cfgs fs model_name
                                                models_dir verification_data)
                             (\<lambda>model_name fs. save_model_verification L cfgs fs model_name
                                                models_dir verification_file)
                             (\<lambda>model_name fs. get_model_cache_path fs model_name models_dir)
                             (from_pretrained X)
                             (map fst cfgs) w1 []) of
                 (Inl e, w2) \<Rightarrow> (Inl e, w2)
               | (Inr downloaded_models, w2) \<Rightarrow> (Inr PyNone, w2))))"

section \<open>Running commands\<close>

text \<open>
  \<^verbatim>\<open>str.strip()\<close>, \<^verbatim>\<open>str.rstrip()\<close> and \<^verbatim>\<open>str.lower()\<close> on ASCII text, and
  \<^verbatim>\<open>"\n".join(lines)\<close>.
\<close>

definition py_isspace :: "char \<Rightarrow> bool" where
  "py_isspace c =
     (c \<in> set [CHR 0x09, CHR 0x0A, CHR 0x0B, CHR 0x0C, CHR 0x0D,
                CHR 0x1C, CHR 0x1D, CHR 0x1E, CHR 0x1F, CHR 0x20])"

definition str_rstrip :: "string \<Rightarrow> string" where
  "str_rstrip s = rev (dropWhile py_isspace (rev s))"

definition str_strip :: "string \<Rightarrow> string" where
  "str_strip s = str_rstrip (dropWhile py_isspace s)"

definition char_lower :: "char \<Rightarrow> char" where
  "char_lower c =
     (if (65::nat) \<le> of_char c \<and> of_char c \<le> (90::nat)
      then char_of (of_char c + (32::nat)) else c)"

definition str_lower :: "string \<Rightarrow> string" where
  "str_lower s = map char_lower s"

fun join_lines :: "string list \<Rightarrow> string" where
  "join_lines [] = []"
| "join_lines [l] = l"
| "join_lines (l # ls) = l @ CHR 0x0A # join_lines ls"

record completed_process =
  returncode :: int
  stdout :: string

text \<open>
  \<^verbatim>\<open>run_command(command, error_message, check)\<close> with the default
  \<^verbatim>\<open>show_output=True\<close>, which every call below uses: the lines of the process
  (standard output and error merged) are stripped on the right and joined.  A launch
  that raises ends in \<^verbatim>\<open>sys.exit(1)\<close> (the handlers for \<^verbatim>\<open>FileNotFoundError\<close> and
  \<^verbatim>\<open>Exception\<close>); a non-zero return code ends in \<^verbatim>\<open>sys.exit(returncode)\<close> when
  \<open>check\<close> is set.
\<close>

definition run_command ::
  "externals \<Rightarrow> string list \<Rightarrow> bool \<Rightarrow> world \<Rightarrow> (exn + completed_process) \<times> world" where
  "run_command X command check w =
     (case run_process X (trace w) command of
        Inl e \<Rightarrow>
          (if is_Exception e then Inl (SystemExit 1) else Inl e,
           w\<lparr>trace := trace w @ [Ran command]\<rparr>)
      | Inr (rc, lines) \<Rightarrow>
          (if check \<and> rc \<noteq> 0 then Inl (SystemExit rc)
           else Inr \<lparr>returncode = rc, stdout = join_lines (map str_rstrip lines)\<rparr>,
           w\<lparr>trace := trace w @ [Ran command]\<rparr>))"

text \<open>
  The text of a finished command as its caller reads it: the joined lines of
  \<^verbatim>\<open>run_command\<close>, stripped (\<^verbatim>\<open>result.stdout.strip()\<close>).
\<close>

definition stdout_text :: "string list \<Rightarrow> string" where
  "stdout_text lines = str_strip (join_lines (map str_rstrip lines))"

text \<open>\<^verbatim>\<open>os.chdir(p)\<close> raises unless \<open>p\<close> is a directory.\<close>

definition chdir :: "filesys \<Rightarrow> path \<Rightarrow> exn option" where
  "chdir fs p =
     (case fs p of
        None \<Rightarrow> Some (Exception FileNotFoundError (str_of_path p))
      | Some (File t a c) \<Rightarrow> Some (Exception NotADirectoryError (str_of_path p))
      | Some (Dir t es) \<Rightarrow> None)"

section \<open>The update checker\<close>

text \<open>
  The dictionaries the checks return, one constructor per \<^verbatim>\<open>status\<close>:
  \<^verbatim>\<open>not_installed\<close> (message), \<^verbatim>\<open>up_to_date\<close> (commit), \<^verbatim>\<open>update_available\<close>
  (current commit, remote commit, commits behind, latest message) and \<^verbatim>\<open>error\<close>
  (message).
\<close>

datatype repo_status =
    NotInstalled string
  | UpToDate string
  | UpdateAvailable string string int string
  | StatusError string

definition git_fetch :: "string list" where
  "git_fetch = [''git'', ''fetch'', ''origin'']"

definition git_rev_parse_head :: "string list" where
  "git_rev_parse_head = [''git'', ''rev-parse'', ''HEAD'']"

definition git_rev_parse_remote :: "string list" where
  "git_rev_parse_remote = [''git'', ''rev-parse'', ''origin/main'']"

definition git_rev_list :: "string \<Rightarrow> string \<Rightarrow> string list" where
  "git_rev_list current_commit remote_commit =
     [''git'', ''rev-list'', ''--count'', current_commit @ ''..'' @ remote_commit]"

definition git_log :: "string list" where
  "git_log = [''git'', ''log'', ''-1'', ''--pretty=format:%s'', ''origin/main'']"

text \<open>
  The body of the \<^verbatim>\<open>try\<close> of \<^verbatim>\<open>check_repository_updates\<close>.  Every command runs
  with \<^verbatim>\<open>check=False\<close>; the result of \<^verbatim>\<open>git fetch\<close> is not looked at.
\<close>

definition check_repository_body ::
  "pylib \<Rightarrow> externals \<Rightarrow> path \<Rightarrow> world \<Rightarrow> (exn + repo_status) \<times> world" where
  "check_repository_body L X repo_path w =
     (case chdir (tree w) repo_path of
        Some e \<Rightarrow> (Inl e, w)
      | None \<Rightarrow>
     (case run_command X git_fetch False w of
        (Inl e, w1) \<Rightarrow> (Inl e, w1)
      | (Inr fetched, w1) \<Rightarrow>
     (case run_command X git_rev_parse_head False w1 of
        (Inl e, w2) \<Rightarrow> (Inl e, w2)
      | (Inr r1, w2) \<Rightarrow>
     (case run_command X git_rev_parse_remote False w2 of
        (Inl e, w3) \<Rightarrow> (Inl e, w3)
      | (Inr r2, w3) \<Rightarrow>
     (let current_commit = (if returncode r1 = 0 then str_strip (stdout r1) else []);
          remote_commit = (if returncode r2 = 0 then str_strip (stdout r2) else [])
      in
        if current_commit \<noteq> [] \<and> remote_commit \<noteq> [] then
          if current_commit \<noteq> remote_commit then
            (case run_command X (git_rev_list current_commit remote_commit) False w3 of
               (Inl e, w4) \<Rightarrow> (Inl e, w4)
             | (Inr r3, w4) \<Rightarrow>
            (case (if returncode r3 = 0 then
                     (case int_of_str L (str_strip (stdout r3)) of
                        None \<Rightarrow> Inl (Exception ValueError ''invalid literal for int() with base 10'')
                      | Some n \<Rightarrow> Inr n)
                   else Inr 0) of
               Inl e \<Rightarrow> (Inl e, w4)
             | Inr commits_behind \<Rightarrow>
            (case run_command X git_log False w4 of
               (Inl e, w5) \<Rightarrow> (Inl e, w5)
             | (Inr r4, w5) \<Rightarrow>
                 (Inr (UpdateAvailable (take 8 current_commit) (take 8 remote_commit)
                         commits_behind
                         (if returncode r4 = 0 then str_strip (stdout r4) else ''No message'')),
                  w5))))
          else (Inr (UpToDate (take 8 current_commit)), w3)
        else (Inr (StatusError ''Could not determine commit status''), w3))))))"

text \<open>
  \<^verbatim>\<open>check_repository_updates\<close>: \<^verbatim>\<open>except Exception as e\<close> turns an exception of the
  body into the status \<^verbatim>\<open>error\<close> with \<^verbatim>\<open>str(e)\<close>; \<^verbatim>\<open>SystemExit\<close> passes through it.
  The \<^verbatim>\<open>finally\<close> clause changes back to the directory the check started in, which is
  taken to succeed.
\<close>

definition check_repository_updates ::
  "pylib \<Rightarrow> externals \<Rightarrow> path \<Rightarrow> world \<Rightarrow> (exn + repo_status) \<times> world" where
  "check_repository_updates L X install_dir w =
     (if \<not> path_exists (tree w) (py_truediv install_dir REPO_NAME)
      then (Inr (NotInstalled ''Repository not found''), w)
      else
        (case check_repository_body L X (py_truediv install_dir REPO_NAME) w of
           (Inl e, w') \<Rightarrow>
             if is_Exception e then (Inr (StatusError (str_of_exn e)), w') else (Inl e, w')
         | (Inr status, w') \<Rightarrow> (Inr status, w')))"

text \<open>
  The statuses of \<^verbatim>\<open>check_model_updates\<close>; \<^verbatim>\<open>updates_available\<close> carries the list
  of (model name, description, reason).
\<close>

datatype model_status =
    NotDownloaded string
  | NoVerification string
  | ModelsUpToDate string
  | UpdatesAvailable "(string \<times> string \<times> string) list"
  | CannotCheck string
  | ModelError string

definition py_truthy :: "json \<Rightarrow> bool" where
  "py_truthy v =
     (case v of
        JNull \<Rightarrow> False | JBool b \<Rightarrow> b | JNum n \<Rightarrow> n \<noteq> 0 | JStr s \<Rightarrow> s \<noteq> []
      | JArr xs \<Rightarrow> xs \<noteq> [] | JObj kvs \<Rightarrow> kvs \<noteq> [])"

text \<open>
  The loop of \<^verbatim>\<open>check_model_updates\<close>: the probe and the verification of one
  artifact sit in a \<^verbatim>\<open>try\<close> whose handler \<^verbatim>\<open>except Exception\<close> records
  \<^verbatim>\<open>check_failed\<close>.
\<close>

fun check_models_loop ::
  "pylib \<Rightarrow> externals \<Rightarrow> registry \<Rightarrow> path \<Rightarrow> json \<Rightarrow> registry \<Rightarrow> world \<Rightarrow>
   (string \<times> string \<times> string) list \<Rightarrow> (exn + (string \<times> string \<times> string) list) \<times> world" where
  "check_models_loop L X cfgs models_dir verification_data [] w updates_available =
     (Inr updates_available, w)"
| "check_models_loop L X cfgs models_dir verification_data ((model_name, cfg) # rest) w
     updates_available =
     (case probe_pretrained X model_name (tree w) of
        (Some e, fs1) \<Rightarrow>
          if is_Exception e then
            check_models_loop L X cfgs models_dir verification_data rest
              (w\<lparr>tree := fs1, trace := trace w @ [ProbeCall model_name]\<rparr>)
              (updates_available @ [(model_name, description cfg, ''check_failed'')])
          else (Inl e, w\<lparr>tree := fs1, trace := trace w @ [ProbeCall model_name]\<rparr>)
      | (None, fs1) \<Rightarrow>
          (case verify_model_integrity L cfgs fs1 model_name models_dir verification_data of
             Inl e \<Rightarrow>
               if is_Exception e then
                 check_models_loop L X cfgs models_dir verification_data rest
                   (w\<lparr>tree := fs1, trace := trace w @ [ProbeCall model_name]\<rparr>)
                   (updates_available @ [(model_name, description cfg, ''check_failed'')])
               else (Inl e, w\<lparr>tree := fs1, trace := trace w @ [ProbeCall model_name]\<rparr>)
           | Inr verified \<Rightarrow>
               check_models_loop L X cfgs models_dir verification_data rest
                 (w\<lparr>tree := fs1, trace := trace w @ [ProbeCall model_name]\<rparr>)
                 (if \<not> verified
                  then updates_available @ [(model_name, description cfg, ''verification_failed'')]
                  else updates_available)))"

definition check_model_updates ::
  "pylib \<Rightarrow> externals \<Rightarrow> registry \<Rightarrow> path \<Rightarrow> world \<Rightarrow> (exn + model_status) \<times> world" where
  "check_model_updates L X cfgs models_dir w =
     (if \<not> path_exists (tree w) models_dir
      then (Inr (NotDownloaded ''Models not found''), w)
      else
        (case load_verification_data L (tree w)
                (py_truediv models_dir MODEL_VERIFICATION_FILE) of
           Inl e \<Rightarrow> (Inl e, w)
         | Inr verification_data \<Rightarrow>
             if \<not> py_truthy verification_data
             then (Inr (NoVerification ''No verification data found''), w)
             else
               (case (case import_modules X of
                        Some e \<Rightarrow> (Inl e, w)
                      | None \<Rightarrow>
                          check_models_loop L X cfgs models_dir verification_data cfgs w []) of
                  (Inl e, w') \<Rightarrow>
                    if exn_in [ImportError] e
                    then (Inr (CannotCheck
                                 ''Cannot check models - dependencies not available''), w')
                    else if is_Exception e then (Inr (ModelError (str_of_exn e)), w')
                    else (Inl e, w')
                | (Inr updates_available, w') \<Rightarrow>
                    if updates_available \<noteq> []
                    then (Inr (UpdatesAvailable updates_available), w')
                    else (Inr (ModelsUpToDate ''All models are current''), w'))))"

section \<open>The update coordinator\<close>

definition git_stash :: "string list" where
  "git_stash = [''git'', ''stash'']"

definition git_pull :: "string list" where
  "git_pull = [''git'', ''pull'', ''origin'', ''main'']"

definition uv_sync :: "string list" where
  "uv_sync = [''./bin/uv'', ''sync'']"

definition uv_sync_compile :: "string list" where
  "uv_sync_compile = [''./bin/uv'', ''sync'', ''--extra'', ''compile'']"

text \<open>The body of the \<^verbatim>\<open>try\<close> of \<^verbatim>\<open>update_repository\<close>.\<close>

definition update_repository_body ::
  "externals \<Rightarrow> path \<Rightarrow> world \<Rightarrow> (exn + bool) \<times> world" where
  "update_repository_body X repo_path w =
     (case chdir (tree w) repo_path of
        Some e \<Rightarrow> (Inl e, w)
      | None \<Rightarrow>
     (case run_command X git_stash False w of
        (Inl e, w1) \<Rightarrow> (Inl e, w1)
      | (Inr stashed, w1) \<Rightarrow>
     (case run_command X git_pull False w1 of
        (Inl e, w2) \<Rightarrow> (Inl e, w2)
      | (Inr result, w2) \<Rightarrow>
          if returncode result \<noteq> 0
          then (Inr False, log ''ERROR'' ''Failed to pull latest changes'' w2)
          else
     (case run_command X uv_sync False w2 of
        (Inl e, w3) \<Rightarrow> (Inl e, w3)
      | (Inr synced, w3) \<Rightarrow>
     (case run_command X uv_sync_compile False w3 of
        (Inl e, w4) \<Rightarrow> (Inl e, w4)
      | (Inr compiled, w4) \<Rightarrow> (Inr True, w4))))))"

definition update_repository ::
  "externals \<Rightarrow> path \<Rightarrow> world \<Rightarrow> (exn + bool) \<times> world" where
  "update_repository X install_dir w =
     (if \<not> path_exists (tree w) (py_truediv install_dir REPO_NAME)
      then (Inr False, log ''ERROR'' ''Repository not found. Please install first.'' w)
      else
        (case update_repository_body X (py_truediv install_dir REPO_NAME) w of
           (Inl e, w') \<Rightarrow>
             if is_Exception e
             then (Inr False, log ''ERROR'' (''Failed to update repository: '' @ str_of_exn e) w')
             else (Inl e, w')
         | (Inr ok, w') \<Rightarrow> (Inr ok, w')))"

text \<open>
  \<^verbatim>\<open>Path.unlink()\<close> inside \<^verbatim>\<open>try ... except Exception\<close>: a file is removed, anything
  else is left as it is.
\<close>

definition unlink_quietly :: "filesys \<Rightarrow> path \<Rightarrow> filesys" where
  "unlink_quietly fs p =
     (case fs p of
        Some (File t a c) \<Rightarrow>
          (case fs (parent p) of
             Some (Dir t' es) \<Rightarrow>
               fs(p := None, parent p \<mapsto> Dir t' (removeAll (path_name p) es))
           | _ \<Rightarrow> fs(p := None))
      | _ \<Rightarrow> fs)"

text \<open>
  \<^verbatim>\<open>update_models\<close>: the verification file is removed, then \<^verbatim>\<open>download_models\<close> runs
  inside \<^verbatim>\<open>try ... except Exception\<close>, whose handler logs and returns \<^verbatim>\<open>False\<close>.
\<close>

definition update_models ::
  "pylib \<Rightarrow> externals \<Rightarrow> registry \<Rightarrow> path \<Rightarrow> world \<Rightarrow> (exn + bool) \<times> world" where
  "update_models L X cfgs script_dir w =
     (let models_dir = py_truediv script_dir MODELS_DOWNLOAD_DIR;
          verification_file = py_truediv models_dir MODEL_VERIFICATION_FILE;
          w1 = (if path_exists (tree w) verification_file
                then w\<lparr>tree := unlink_quietly (tree w) verification_file\<rparr> else w)
      in
        (case (case chdir (tree w1) (py_truediv script_dir REPO_NAME) of
                 Some e \<Rightarrow> (Inl e, w1)
               | None \<Rightarrow> download_models L X cfgs models_dir w1) of
           (Inl e, w2) \<Rightarrow>
             if is_Exception e
             then (Inr False, log ''ERROR'' (''Failed to update models: '' @ str_of_exn e) w2)
             else (Inl e, w2)
         | (Inr none, w2) \<Rightarrow> (Inr True, w2)))"

text \<open>
  The last part of \<^verbatim>\<open>update_zonos\<close>, from \<^verbatim>\<open># Apply updates\<close> on, for the choice
  the prompts produced.
\<close>

definition apply_updates ::
  "pylib \<Rightarrow> externals \<Rightarrow> registry \<Rightarrow> path \<Rightarrow> string \<Rightarrow> world \<Rightarrow> (exn + unit) \<times> world" where
  "apply_updates L X cfgs script_dir choice w =
     (case (if choice \<in> set [''repo'', ''both''] then
              (case update_repository X script_dir w of
                 (Inl e, w1) \<Rightarrow> (Inl e, w1)
               | (Inr ok, w1) \<Rightarrow>
                   (Inr (),
                    if ok then log ''INFO'' ''Repository update completed successfully!'' w1
                    else log ''ERROR'' ''Repository update failed!'' w1))
            else (Inr (), w)) of
        (Inl e, w1) \<Rightarrow> (Inl e, w1)
      | (Inr u, w1) \<Rightarrow>
          (case (if choice \<in> set [''models'', ''both''] then
                   (case update_models L X cfgs script_dir w1 of
                      (Inl e, w2) \<Rightarrow> (Inl e, w2)
                    | (Inr ok, w2) \<Rightarrow>
                        (Inr (),
                         if ok then log ''INFO'' ''Model update completed successfully!'' w2
                         else log ''ERROR'' ''Model update failed!'' w2))
                 else (Inr (), w1)) of
             (Inl e, w2) \<Rightarrow> (Inl e, w2)
           | (Inr u', w2) \<Rightarrow>
               (Inr (),
                log ''INFO'' ''Update check completed!''
                  (if choice = ''none'' then log ''INFO'' ''Update cancelled by user.'' w2
                   else w2))))"

definition update_zonos ::
  "pylib \<Rightarrow> externals \<Rightarrow> registry \<Rightarrow> path \<Rightarrow> world \<Rightarrow> (exn + unit) \<times> world" where
  "update_zonos L X cfgs script_dir w =
     (case check_repository_updates L X script_dir w of
        (Inl e, w1) \<Rightarrow> (Inl e, w1)
      | (Inr repo_status, w1) \<Rightarrow>
     (case check_model_updates L X cfgs (py_truediv script_dir MODELS_DOWNLOAD_DIR) w1 of
        (Inl e, w2) \<Rightarrow> (Inl e, w2)
      | (Inr model_status, w2) \<Rightarrow>
     (case repo_status of
        NotInstalled m \<Rightarrow> (Inr (), w2)
      | _ \<Rightarrow>
     (let repo_needs_update =
            (case repo_status of UpdateAvailable c r n m \<Rightarrow> True | _ \<Rightarrow> False);
          model_needs_update =
            (case model_status of UpdatesAvailable ms \<Rightarrow> True | _ \<Rightarrow> False);
          answer = str_lower (str_strip (user_input X))
      in
        if \<not> repo_needs_update \<and> \<not> model_needs_update then (Inr (), w2)
        else
          apply_updates L X cfgs script_dir
            (if repo_needs_update \<and> model_needs_update then answer
             else if repo_needs_update
             then (if answer \<in> set [''yes'', ''y''] then ''repo'' else ''none'')
             else (if answer \<in> set [''yes'', ''y''] then ''models'' else ''none''))
            w2))))"

section \<open>An example installation\<close>

text \<open>
  A small library, file tree and set of collaborators on which the theorems below
  are instantiated.  The script lives in \<^verbatim>\<open>/srv\<close>; the cache root holds one
  artifact directory with two snapshots, an empty file and a file that is no JSON.
\<close>

definition example_lib :: pylib where
  "example_lib =
     \<lparr>sha256_hexdigest = (\<lambda>c. ''sha256:'' @ c),
      json_loads = (\<lambda>s. if s = ''{}'' then Some (JObj []) else None),
      json_dumps = (\<lambda>j. ''{}''),
      int_of_str = (\<lambda>s. if s = ''3'' then Some 3 else None),
      now_isoformat = ''2025-07-06T12:00:00''\<rparr>"

definition example_script_dir :: path where
  "example_script_dir = [''srv'']"

definition example_cache :: path where
  "example_cache = [''srv'', ''zonos_download_models'']"

definition example_tree :: filesys where
  "example_tree = map_of
     [([''srv''], Dir 5 [''Zonos'', ''zonos_download_models'']),
      ([''srv'', ''Zonos''], Dir 5 []),
      (example_cache, Dir 5 [''Zonos-v0.1-hybrid'', ''empty.json'', ''broken.json'']),
      (example_cache @ [''empty.json''], File 5 True []),
      (example_cache @ [''broken.json''], File 5 True ''{not json''),
      (example_cache @ [''Zonos-v0.1-hybrid''], Dir 5 [''snapshots'']),
      (example_cache @ [''Zonos-v0.1-hybrid'', ''snapshots''], Dir 5 [''old'', ''new'']),
      (example_cache @ [''Zonos-v0.1-hybrid'', ''snapshots'', ''old''], Dir 10 []),
      (example_cache @ [''Zonos-v0.1-hybrid'', ''snapshots'', ''new''], Dir 20 [''config.json'']),
      (example_cache @ [''Zonos-v0.1-hybrid'', ''snapshots'', ''new'', ''config.json''],
         File 20 True ''{}'')]"

definition example_world :: world where
  "example_world = \<lparr>tree = example_tree, trace = []\<rparr>"

text \<open>
  A configuration that requires the one file the newer snapshot holds, and the
  document \<^verbatim>\<open>save_model_verification\<close> would write for it: the entry of the
  artifact with the hash of that file.
\<close>

definition config_only :: model_config where
  "config_only =
     \<lparr>name = ''hybrid_model'', description = ''Zonos v0.1 Hybrid Model'',
      files_to_check = [''config.json'']\<rparr>"

definition saved_document :: json where
  "saved_document =
     JObj [(''hybrid_model'',
            verification_record example_lib [(''config.json'', JStr ''sha256:{}'')]
              ''Zyphra/Zonos-v0.1-hybrid'' (example_cache @ [''Zonos-v0.1-hybrid'']))]"

text \<open>
  An installation whose cache root is still empty, and stand-ins for the functions
  the download loop calls: an artifact counts as verified when its directory exists,
  the fetch of the hybrid model creates its directory and every other fetch fails.
\<close>

definition empty_cache_tree :: filesys where
  "empty_cache_tree = map_of
     [([''srv''], Dir 5 [''Zonos'', ''zonos_download_models'']),
      ([''srv'', ''Zonos''], Dir 5 []),
      (example_cache, Dir 5 [])]"

definition hybrid_cache_tree :: filesys where
  "hybrid_cache_tree = map_of
     [([''srv''], Dir 5 [''Zonos'', ''zonos_download_models'']),
      ([''srv'', ''Zonos''], Dir 5 []),
      (example_cache, Dir 6 [''Zonos-v0.1-hybrid'']),
      (example_cache @ [''Zonos-v0.1-hybrid''], Dir 6 [])]"

definition example_verify :: "string \<Rightarrow> filesys \<Rightarrow> exn + bool" where
  "example_verify model_name fs =
     Inr (path_exists fs (example_cache @ [last_segment model_name]))"

definition example_save :: "string \<Rightarrow> filesys \<Rightarrow> exn + filesys" where
  "example_save model_name fs = Inr fs"

definition example_resolve :: "string \<Rightarrow> filesys \<Rightarrow> exn + path option" where
  "example_resolve model_name fs =
     Inr (if path_exists fs (example_cache @ [last_segment model_name])
          then Some (example_cache @ [last_segment model_name]) else None)"

definition example_fetch :: "string \<Rightarrow> filesys \<Rightarrow> exn option \<times> filesys" where
  "example_fetch model_name fs =
     (if model_name = ''Zyphra/Zonos-v0.1-hybrid''
      then (None, hybrid_cache_tree)
      else (Some (Exception OtherError ''connection reset''), fs))"

definition example_ext :: externals where
  "example_ext =
     \<lparr>import_modules = None,
      from_pretrained = example_fetch,
      probe_pretrained = (\<lambda>model_name fs. (None, fs)),
      run_process = (\<lambda>history command. Inr (0, [])),
      user_input = ''both''\<rparr>"

text \<open>
  Four behaviours of the version control client: the fetch fails and both refs are
  the same; the local ref is three commits behind; \<^verbatim>\<open>rev-parse HEAD\<close> fails; and no
  \<^verbatim>\<open>git\<close> executable can be started.
\<close>

definition example_git_same :: "event list \<Rightarrow> string list \<Rightarrow> exn + (int \<times> string list)" where
  "example_git_same history command =
     (if command = git_fetch then Inr (128, [''fatal: unable to access the remote'' @ [CHR 0x0A]])
      else if command = git_rev_parse_head then Inr (0, [''0123456789abcdef'' @ [CHR 0x0A]])
      else if command = git_rev_parse_remote then Inr (0, [''0123456789abcdef'' @ [CHR 0x0A]])
      else Inr (0, []))"

definition example_git_behind :: "event list \<Rightarrow> string list \<Rightarrow> exn + (int \<times> string list)" where
  "example_git_behind history command =
     (if command = git_rev_parse_head then Inr (0, [''1111111111aaaaaa'' @ [CHR 0x0A]])
      else if command = git_rev_parse_remote then Inr (0, [''2222222222bbbbbb'' @ [CHR 0x0A]])
      else if command = git_rev_list ''1111111111aaaaaa'' ''2222222222bbbbbb''
      then Inr (0, [''3'' @ [CHR 0x0A]])
      else if command = git_log then Inr (0, [''Fix the loader''])
      else Inr (0, []))"

definition example_git_broken :: "event list \<Rightarrow> string list \<Rightarrow> exn + (int \<times> string list)" where
  "example_git_broken history command =
     (if command = git_rev_parse_head
      then Inr (128, [''fatal: not a git repository'' @ [CHR 0x0A]])
      else Inr (0, []))"

definition example_git_missing :: "event list \<Rightarrow> string list \<Rightarrow> exn + (int \<times> string list)" where
  "example_git_missing history command = Inl (Exception FileNotFoundError ''git'')"

text \<open>
  An installation with a verification document: the loader of this library reads
  the one text the file holds as a document with an entry for the hybrid model.
\<close>

definition installed_lib :: pylib where
  "installed_lib = example_lib\<lparr>json_loads :=
      (\<lambda>s. if s = ''{hybrid_model: {}}'' then Some (JObj [(''hybrid_model'', JObj [])])
           else None)\<rparr>"

definition installed_tree :: filesys where
  "installed_tree = map_of
     [([''srv''], Dir 5 [''Zonos'', ''zonos_download_models'']),
      ([''srv'', ''Zonos''], Dir 5 []),
      (example_cache, Dir 5 [''model_verification.json'']),
      (example_cache @ [''model_verification.json''], File 5 True ''{hybrid_model: {}}'')]"

section \<open>Properties of the resolver\<close>

lemma possible_paths_raises:
  "possible_paths model_name models_dir =
     Inl (Exception TypeError ''unsupported operand type(s) for +: PosixPath and str'')"
  by (simp add: possible_paths_def)

lemma get_model_cache_path_TypeError:
  "get_model_cache_path fs model_name models_dir =
     Inl (Exception TypeError ''unsupported operand type(s) for +: PosixPath and str'')"
  by (simp add: get_model_cache_path_def possible_paths_raises)

text \<open>
  Claim C3 (resolver totality and search order): the resolver is said to return an
  existing path or nothing and never to raise.  As written, the first element of
  \<open>possible_paths\<close> adds a string to a \<^verbatim>\<open>Path\<close>, so for every model identity, every
  file tree and every cache root the call raises \<^verbatim>\<open>TypeError\<close> before any candidate
  is looked at.
\<close>

theorem get_model_cache_path_raises:
  "get_model_cache_path fs model_name models_dir =
     Inl (Exception TypeError ''unsupported operand type(s) for +: PosixPath and str'')"
  by (simp add: get_model_cache_path_def possible_paths_raises)

text \<open>
  Behind the list literal, the scan of the cache root would raise as well when the
  root is absent: \<^verbatim>\<open>iterdir\<close> of a missing directory is a \<^verbatim>\<open>FileNotFoundError\<close>.
\<close>

lemma iterdir_absent:
  "fs models_dir = None \<Longrightarrow>
     iterdir fs models_dir = Inl (Exception FileNotFoundError (str_of_path models_dir))"
  by (simp add: iterdir_def)

section \<open>Properties of the verifier\<close>

text \<open>
  Claim C2 (verifier postcondition): the verifier is said to return true exactly
  when the location resolves, a record exists and every required file is present
  with the stored hash, and never to raise.  For every artifact that has a
  configuration the call raises the \<^verbatim>\<open>TypeError\<close> of the resolver.
\<close>

theorem verify_model_integrity_raises:
  assumes "map_of cfgs model_name = Some cfg"
  shows "verify_model_integrity L cfgs fs model_name models_dir verification_data =
     Inl (Exception TypeError ''unsupported operand type(s) for +: PosixPath and str'')"
  using assms by (simp add: verify_model_integrity_def get_model_cache_path_TypeError)

theorem verify_model_integrity_raises_witness:
  "map_of MODEL_CONFIGS ''Zyphra/Zonos-v0.1-hybrid'' = Some (snd (hd MODEL_CONFIGS))
   \<and> verify_model_integrity example_lib MODEL_CONFIGS example_tree ''Zyphra/Zonos-v0.1-hybrid''
       example_cache (JObj []) =
     Inl (Exception TypeError ''unsupported operand type(s) for +: PosixPath and str'')"
  using verify_model_integrity_raises [of MODEL_CONFIGS "''Zyphra/Zonos-v0.1-hybrid''"
     "snd (hd MODEL_CONFIGS)" example_lib example_tree example_cache "JObj []"]
  by (simp add: MODEL_CONFIGS_def)

text \<open>
  The comparison of the hashes has a second defect, which shows from the resolved
  path on: \<open>stored_hashes\<close> is the whole entry that \<^verbatim>\<open>save_model_verification\<close>
  writes (with the keys \<^verbatim>\<open>hashes\<close>, \<^verbatim>\<open>model_name\<close>, \<^verbatim>\<open>download_time\<close> and
  \<^verbatim>\<open>cache_path\<close>), not its \<^verbatim>\<open>hashes\<close> member, so the name of a required file is never
  found in it and an entry written by a save never verifies.
\<close>

lemma map_of_update_same: "map_of (AList.update k v al) k = Some v"
  by (simp add: update_conv')

lemma map_of_update_other: "k \<noteq> k' \<Longrightarrow> map_of (AList.update k v al) k' = map_of al k'"
  by (simp add: update_conv')

lemma verify_files_record_mismatch:
  assumes "f \<notin> {''hashes'', ''model_name'', ''download_time'', ''cache_path''}"
  shows "verify_files L fs dir (verification_record L' hs mn cp) (f # rest) \<noteq> Inr True"
  using assms
  by (auto simp: verification_record_def py_contains_def split: sum.splits)

lemma saved_record_never_verifies:
  assumes "files_to_check cfg = f # rest"
      and "f \<notin> {''hashes'', ''model_name'', ''download_time'', ''cache_path''}"
      and "py_setitem old_data (name cfg) (verification_record L' hs mn cp) = Inr verification_data"
  shows "verify_resolved L fs cfg cache_path verification_data \<noteq> Inr True"
proof -
  obtain kvs where kvs: "old_data = JObj kvs"
    using assms(3) by (cases old_data) (auto simp: py_setitem_def)
  then have vd: "verification_data =
      JObj (AList.update (name cfg) (verification_record L' hs mn cp) kvs)"
    using assms(3) by (simp add: py_setitem_def)
  have c: "py_contains verification_data (name cfg) = Inr True"
    by (simp add: vd py_contains_def map_of_update_same)
  have g: "py_getitem verification_data (name cfg) = Inr (verification_record L' hs mn cp)"
    by (simp add: vd py_getitem_def map_of_update_same)
  show ?thesis
    using verify_files_record_mismatch [OF assms(2)]
    by (auto simp: verify_resolved_def c g assms(1) split: option.splits sum.splits)
qed

text \<open>
  On the example tree: the required file is present under the newer snapshot, its
  hash is the one the entry stores, and the verification from the resolved path on
  still answers \<^verbatim>\<open>False\<close>.
\<close>

lemma matching_record_rejected:
  "calculate_file_hash example_lib example_tree
      (example_cache @ [''Zonos-v0.1-hybrid'', ''snapshots'', ''new'', ''config.json''])
     = Inr ''sha256:{}''
   \<and> py_getitem saved_document ''hybrid_model''
     = Inr (JObj [(''hashes'', JObj [(''config.json'', JStr ''sha256:{}'')]),
                  (''model_name'', JStr ''Zyphra/Zonos-v0.1-hybrid''),
                  (''download_time'', JStr ''2025-07-06T12:00:00''),
                  (''cache_path'', JStr ''/srv/zonos_download_models/Zonos-v0.1-hybrid'')])
   \<and> verify_resolved example_lib example_tree config_only
        (Some (example_cache @ [''Zonos-v0.1-hybrid''])) saved_document
     = Inr False"
  by (simp add: calculate_file_hash_def read_file_def example_lib_def example_tree_def
        example_cache_def saved_document_def verification_record_def str_of_path_def
        py_getitem_def py_contains_def verify_resolved_def config_only_def path_exists_def
        model_files_dir_def iterdir_def is_dir_def py_max_mtime_def stat_mtime_def
        py_truediv_def)

subsection \<open>Snapshot selection\<close>








section \<open>Properties of the verification store\<close>



text \<open>
  Claim C10 (frame property of record persistence): \<^verbatim>\<open>save_model_verification\<close> is
  said to rewrite the document with only the artifact's key updated.  For every
  artifact that has a configuration the call ends in an exception (that of reading
  the existing document, or the \<^verbatim>\<open>TypeError\<close> of the resolver) before anything is
  written: no file tree is returned.
\<close>

theorem save_model_verification_raises:
  assumes "map_of cfgs model_name = Some cfg"
  shows "isl (save_model_verification L cfgs fs model_name models_dir verification_file)"
  using assms
  by (auto simp: save_model_verification_def get_model_cache_path_TypeError split: sum.splits)

theorem save_model_verification_raises_witness:
  "map_of MODEL_CONFIGS ''Zyphra/Zonos-v0.1-transformer'' = Some (snd (hd (tl MODEL_CONFIGS)))
   \<and> save_model_verification example_lib MODEL_CONFIGS example_tree
       ''Zyphra/Zonos-v0.1-transformer'' example_cache
       (example_cache @ [''model_verification.json'']) =
     Inl (Exception TypeError ''unsupported operand type(s) for +: PosixPath and str'')"
  using save_model_verification_raises [of MODEL_CONFIGS "''Zyphra/Zonos-v0.1-transformer''"
     "snd (hd (tl MODEL_CONFIGS))" example_lib example_tree example_cache
     "example_cache @ [''model_verification.json'']"]
  by (simp add: MODEL_CONFIGS_def save_model_verification_def get_model_cache_path_TypeError
        path_exists_def example_tree_def example_cache_def)

text \<open>
  The block that writes the document, from the resolved path on, does keep the
  frame: what it writes is the loaded document with the artifact's key set, and
  every other key keeps its entry (\<open>map_of_update_other\<close>).
\<close>

lemma save_resolved_frame:
  assumes "save_resolved L fs model_name cfg (JObj kvs) cache_path verification_file = Inr fs'"
  shows "fs' = fs \<or>
     (\<exists>hs. read_file fs' verification_file =
        Inr (json_dumps L (JObj (AList.update (name cfg)
               (verification_record L hs model_name cache_path) kvs))))"
  using assms
  by (auto simp: save_resolved_def py_setitem_def write_file_def read_file_def
       split: sum.splits option.splits node.splits if_splits)

section \<open>Properties of the synchronisation\<close>

lemma download_models_raises:
  assumes "cfgs = (m, cfg) # rest"
  shows "isl (fst (download_models L X cfgs models_dir w)) \<and>
         trace (snd (download_models L X cfgs models_dir w)) = trace w"
  using assms
  by (auto simp: download_models_def Let_def exit_on_exception_def
        verify_model_integrity_def get_model_cache_path_TypeError
        split: sum.splits option.splits prod.splits)

text \<open>
  Claim C1 (idempotence of synchronisation): after a run that completes, a second
  run is said to download nothing.  On the registry of the script no run completes:
  whatever the library, the collaborators, the cache root and the world, the run ends
  in an exception (the verification of the first artifact raises the \<^verbatim>\<open>TypeError\<close>
  of the resolver, which the outer handler turns into \<^verbatim>\<open>sys.exit(1)\<close>) and the fetch
  call is never made.
\<close>

theorem download_models_never_completes:
  "isl (fst (download_models L X MODEL_CONFIGS models_dir w)) \<and>
   fetch_calls (snd (download_models L X MODEL_CONFIGS models_dir w)) = fetch_calls w"
  using download_models_raises [of MODEL_CONFIGS _ _ _ L X models_dir w]
  by (simp add: MODEL_CONFIGS_def fetch_calls_def)

lemma download_loop_append:
  assumes "download_loop verify save resolve fetch pre w dl = (Inr dl1, w1)"
  shows "download_loop verify save resolve fetch (pre @ post) w dl =
         download_loop verify save resolve fetch post w1 dl1"
  using assms
proof (induction pre arbitrary: w dl)
  case Nil
  then show ?case by simp
next
  case (Cons m pre)
  then show ?case
    by (auto split: sum.splits bool.splits prod.splits option.splits)
qed

text \<open>
  Claim C5 (atomicity on fetch failure): let the loop of the orchestrator have
  passed the artifacts \<open>pre\<close> and reach an artifact \<open>m\<close> that does not verify and
  whose fetch raises \<open>e\<close>.  Then the run over \<open>pre @ m # post\<close> ends there, whatever
  \<open>post\<close> is: the outer handler exits with status 1 (an exception that is no
  \<^verbatim>\<open>Exception\<close> passes through), the trace ends with the failed fetch call, so no later
  artifact is fetched, and the file tree is the one the failed fetch left, so no
  record is written for \<open>m\<close>.
\<close>

theorem fetch_failure_aborts:
  assumes "download_loop verify save resolve fetch pre w dl = (Inr dl1, w1)"
      and "verify m (tree w1) = Inr False"
      and "fetch m (tree w1) = (Some e, fs1)"
  shows "exit_on_exception (download_loop verify save resolve fetch (pre @ m # post) w dl) =
           (Inl (if is_Exception e then SystemExit 1 else e),
            w1\<lparr>tree := fs1, trace := trace w1 @ [FetchCall m]\<rparr>)"
  using assms(2,3) by (simp add: download_loop_append [OF assms(1)] exit_on_exception_def)

theorem fetch_failure_aborts_witness:
  "download_loop example_verify example_save example_resolve example_fetch
      [''Zyphra/Zonos-v0.1-hybrid''] \<lparr>tree = empty_cache_tree, trace = []\<rparr> []
     = (Inr [''Zyphra/Zonos-v0.1-hybrid''],
        \<lparr>tree = hybrid_cache_tree,
         trace = [FetchCall ''Zyphra/Zonos-v0.1-hybrid'']\<rparr>)
   \<and> exit_on_exception
       (download_loop example_verify example_save example_resolve example_fetch
          ([''Zyphra/Zonos-v0.1-hybrid''] @ ''Zyphra/Zonos-v0.1-transformer'' # [''Zyphra/other''])
          \<lparr>tree = empty_cache_tree, trace = []\<rparr> [])
     = (Inl (SystemExit 1),
        \<lparr>tree = hybrid_cache_tree,
         trace = [FetchCall ''Zyphra/Zonos-v0.1-hybrid'',
                  FetchCall ''Zyphra/Zonos-v0.1-transformer'']\<rparr>)"
proof -
  have pre: "download_loop example_verify example_save example_resolve example_fetch
      [''Zyphra/Zonos-v0.1-hybrid''] \<lparr>tree = empty_cache_tree, trace = []\<rparr> []
     = (Inr [''Zyphra/Zonos-v0.1-hybrid''],
        \<lparr>tree = hybrid_cache_tree,
         trace = [FetchCall ''Zyphra/Zonos-v0.1-hybrid'']\<rparr>)"
    by (simp add: example_verify_def example_save_def example_resolve_def example_fetch_def
          empty_cache_tree_def hybrid_cache_tree_def example_cache_def path_exists_def
          last_segment_def)
  have unverified: "example_verify ''Zyphra/Zonos-v0.1-transformer''
      (tree \<lparr>tree = hybrid_cache_tree,
             trace = [FetchCall ''Zyphra/Zonos-v0.1-hybrid'']\<rparr>) = Inr False"
    by (simp add: example_verify_def hybrid_cache_tree_def example_cache_def path_exists_def
          last_segment_def)
  have fails: "example_fetch ''Zyphra/Zonos-v0.1-transformer''
      (tree \<lparr>tree = hybrid_cache_tree,
             trace = [FetchCall ''Zyphra/Zonos-v0.1-hybrid'']\<rparr>)
     = (Some (Exception OtherError ''connection reset''),
        hybrid_cache_tree)"
    by (simp add: example_fetch_def)
  show ?thesis
    using pre fetch_failure_aborts [OF pre unverified fails, of "[''Zyphra/other'']"]
    by simp
qed







section \<open>Properties of the update checker\<close>

lemma py_truediv_REPO: "py_truediv d REPO_NAME = d @ [''Zonos'']"
  by (simp add: py_truediv_def REPO_NAME_def)

lemma check_not_installed:
  assumes "\<not> path_exists (tree w) (py_truediv d REPO_NAME)"
  shows "check_repository_updates L X d w = (Inr (NotInstalled ''Repository not found''), w)"
  using assms by (simp add: check_repository_updates_def)

lemma run_command_launched:
  assumes "run_process X (trace w) c = Inr (rc, out)"
  shows "run_command X c False w =
     (Inr \<lparr>returncode = rc, stdout = join_lines (map str_rstrip out)\<rparr>,
      w\<lparr>trace := trace w @ [Ran c]\<rparr>)"
  using assms by (simp add: run_command_def)

lemma is_dir_chdir: "is_dir fs p \<Longrightarrow> chdir fs p = None"
  by (auto simp: is_dir_def chdir_def split: option.splits node.splits)

lemma is_dir_exists: "is_dir fs p \<Longrightarrow> path_exists fs p"
  by (auto simp: is_dir_def path_exists_def split: option.splits)

lemma check_body_refs:
  assumes "is_dir (tree w) repo"
      and "run_process X (trace w) git_fetch = Inr (rc0, out0)"
      and "run_process X (trace w @ [Ran git_fetch]) git_rev_parse_head = Inr (rc1, out1)"
      and "run_process X (trace w @ [Ran git_fetch, Ran git_rev_parse_head])
             git_rev_parse_remote = Inr (rc2, out2)"
      and "current = (if rc1 = 0 then stdout_text out1 else [])"
      and "remote = (if rc2 = 0 then stdout_text out2 else [])"
      and "w3 = w\<lparr>trace := trace w @ [Ran git_fetch, Ran git_rev_parse_head,
                                         Ran git_rev_parse_remote]\<rparr>"
  shows "check_repository_body L X repo w =
     (if current \<noteq> [] \<and> remote \<noteq> [] then
        if current \<noteq> remote then
          (case run_command X (git_rev_list current remote) False w3 of
             (Inl e, w4) \<Rightarrow> (Inl e, w4)
           | (Inr r3, w4) \<Rightarrow>
              (case (if returncode r3 = 0 then
                       (case int_of_str L (str_strip (stdout r3)) of
                          None \<Rightarrow> Inl (Exception ValueError ''invalid literal for int() with base 10'')
                        | Some n \<Rightarrow> Inr n)
                     else Inr 0) of
                 Inl e \<Rightarrow> (Inl e, w4)
               | Inr commits_behind \<Rightarrow>
                  (case run_command X git_log False w4 of
                     (Inl e, w5) \<Rightarrow> (Inl e, w5)
                   | (Inr r4, w5) \<Rightarrow>
                       (Inr (UpdateAvailable (take 8 current) (take 8 remote) commits_behind
                          (if returncode r4 = 0 then str_strip (stdout r4) else ''No message'')),
                        w5))))
        else (Inr (UpToDate (take 8 current)), w3)
      else (Inr (StatusError ''Could not determine commit status''), w3))"
proof -
  have c0: "run_command X git_fetch False w =
      (Inr \<lparr>returncode = rc0, stdout = join_lines (map str_rstrip out0)\<rparr>,
       w\<lparr>trace := trace w @ [Ran git_fetch]\<rparr>)"
    using assms(2) by (rule run_command_launched)
  have c1: "run_command X git_rev_parse_head False (w\<lparr>trace := trace w @ [Ran git_fetch]\<rparr>) =
      (Inr \<lparr>returncode = rc1, stdout = join_lines (map str_rstrip out1)\<rparr>,
       w\<lparr>trace := trace w @ [Ran git_fetch, Ran git_rev_parse_head]\<rparr>)"
    using assms(3) by (simp add: run_command_def)
  have c2: "run_command X git_rev_parse_remote False
        (w\<lparr>trace := trace w @ [Ran git_fetch, Ran git_rev_parse_head]\<rparr>) =
      (Inr \<lparr>returncode = rc2, stdout = join_lines (map str_rstrip out2)\<rparr>, w3)"
    using assms(4) by (simp add: run_command_def assms(7))
  show ?thesis
    unfolding check_repository_body_def
    by (simp only: is_dir_chdir [OF assms(1)] c0 c1 c2 option.case prod.case sum.case Let_def
          completed_process.simps assms(5,6) stdout_text_def)
qed



lemmas git_defs = git_fetch_def git_rev_parse_head_def git_rev_parse_remote_def
  git_rev_list_def git_log_def

lemmas str_defs = str_strip_def str_rstrip_def py_isspace_def

lemma check_not_dir:
  assumes "path_exists (tree w) (py_truediv d REPO_NAME)"
      and "\<not> is_dir (tree w) (py_truediv d REPO_NAME)"
  shows "check_repository_updates L X d w =
           (Inr (StatusError (str_of_path (py_truediv d REPO_NAME))), w)"
  using assms
  by (auto simp: check_repository_updates_def check_repository_body_def chdir_def
        path_exists_def is_dir_def split: option.splits node.splits)

lemma check_updates_refs:
  assumes "is_dir (tree w) (py_truediv d REPO_NAME)"
      and "run_process X (trace w) git_fetch = Inr (rc0, out0)"
      and "run_process X (trace w @ [Ran git_fetch]) git_rev_parse_head = Inr (rc1, out1)"
      and "run_process X (trace w @ [Ran git_fetch, Ran git_rev_parse_head])
             git_rev_parse_remote = Inr (rc2, out2)"
      and "current = (if rc1 = 0 then stdout_text out1 else [])"
      and "remote = (if rc2 = 0 then stdout_text out2 else [])"
  shows "current = [] \<or> remote = [] \<Longrightarrow>
           fst (check_repository_updates L X d w) =
             Inr (StatusError ''Could not determine commit status'')"
    and "current \<noteq> [] \<Longrightarrow> remote = current \<Longrightarrow>
           fst (check_repository_updates L X d w) = Inr (UpToDate (take 8 current))"
    and "current \<noteq> [] \<Longrightarrow> remote \<noteq> [] \<Longrightarrow> current \<noteq> remote \<Longrightarrow>
         run_process X (trace w @ [Ran git_fetch, Ran git_rev_parse_head,
             Ran git_rev_parse_remote]) (git_rev_list current remote) = Inr (rc3, out3) \<Longrightarrow>
         run_process X (trace w @ [Ran git_fetch, Ran git_rev_parse_head,
             Ran git_rev_parse_remote, Ran (git_rev_list current remote)]) git_log
           = Inr (rc4, out4) \<Longrightarrow>
         count = (if rc3 = 0 then int_of_str L (stdout_text out3) else Some 0) \<Longrightarrow>
           fst (check_repository_updates L X d w) =
             Inr (case count of
                    Some n \<Rightarrow> UpdateAvailable (take 8 current) (take 8 remote) n
                                (if rc4 = 0 then stdout_text out4 else ''No message'')
                  | None \<Rightarrow> StatusError ''invalid literal for int() with base 10'')"
proof -
  note body = check_body_refs [OF assms(1,2,3,4,5,6) refl, of L]
  have ex: "path_exists (tree w) (py_truediv d REPO_NAME)"
    using assms(1) by (rule is_dir_exists)
  show "current = [] \<or> remote = [] \<Longrightarrow>
           fst (check_repository_updates L X d w) =
             Inr (StatusError ''Could not determine commit status'')"
    by (auto simp: check_repository_updates_def ex body)
  show "current \<noteq> [] \<Longrightarrow> remote = current \<Longrightarrow>
           fst (check_repository_updates L X d w) = Inr (UpToDate (take 8 current))"
    by (simp add: check_repository_updates_def ex body)
  show "fst (check_repository_updates L X d w) =
             Inr (case count of
                    Some n \<Rightarrow> UpdateAvailable (take 8 current) (take 8 remote) n
                                (if rc4 = 0 then stdout_text out4 else ''No message'')
                  | None \<Rightarrow> StatusError ''invalid literal for int() with base 10'')"
    if h: "current \<noteq> []" "remote \<noteq> []" "current \<noteq> remote"
      "run_process X (trace w @ [Ran git_fetch, Ran git_rev_parse_head,
             Ran git_rev_parse_remote]) (git_rev_list current remote) = Inr (rc3, out3)"
      "run_process X (trace w @ [Ran git_fetch, Ran git_rev_parse_head,
             Ran git_rev_parse_remote, Ran (git_rev_list current remote)]) git_log
           = Inr (rc4, out4)"
      "count = (if rc3 = 0 then int_of_str L (stdout_text out3) else Some 0)"
  proof -
    have c3: "run_command X (git_rev_list current remote) False
        (w\<lparr>trace := trace w @ [Ran git_fetch, Ran git_rev_parse_head,
                                Ran git_rev_parse_remote]\<rparr>) =
        (Inr \<lparr>returncode = rc3, stdout = join_lines (map str_rstrip out3)\<rparr>,
         w\<lparr>trace := trace w @ [Ran git_fetch, Ran git_rev_parse_head,
                                Ran git_rev_parse_remote, Ran (git_rev_list current remote)]\<rparr>)"
      using h(4) by (simp add: run_command_def)
    have c4: "run_command X git_log False
        (w\<lparr>trace := trace w @ [Ran git_fetch, Ran git_rev_parse_head,
                                Ran git_rev_parse_remote, Ran (git_rev_list current remote)]\<rparr>) =
        (Inr \<lparr>returncode = rc4, stdout = join_lines (map str_rstrip out4)\<rparr>,
         w\<lparr>trace := trace w @ [Ran git_fetch, Ran git_rev_parse_head,
                                Ran git_rev_parse_remote, Ran (git_rev_list current remote),
                                Ran git_log]\<rparr>)"
      using h(5) by (simp add: run_command_def)
    show ?thesis
      using h(1,2,3)
      by (cases "int_of_str L (stdout_text out3)")
         (simp_all add: check_repository_updates_def ex body c3 c4 h(6) stdout_text_def)
  qed
qed

text \<open>
  Claim C8 (repository check outcomes), as the code has them.  Without a repository
  directory the status is \<^verbatim>\<open>not_installed\<close>.  A repository path that is no
  directory makes \<^verbatim>\<open>os.chdir\<close> raise, and the status is \<^verbatim>\<open>error\<close> with the message
  of the exception.  When the fetch and the two \<^verbatim>\<open>rev-parse\<close> commands can be
  started, the outcome of the fetch is ignored and the refs decide: a \<^verbatim>\<open>rev-parse\<close>
  that fails or prints nothing gives \<^verbatim>\<open>error\<close> with the fixed message; equal refs
  give \<^verbatim>\<open>up_to_date\<close>; different refs give \<^verbatim>\<open>update_available\<close> with the count of
  \<^verbatim>\<open>rev-list\<close> (0 when it fails) and the message of \<^verbatim>\<open>git log\<close> (\<^verbatim>\<open>No message\<close> when
  it fails), or \<^verbatim>\<open>error\<close> with the message of the \<^verbatim>\<open>ValueError\<close> when the count is
  no number.
\<close>

theorem check_repository_updates_outcomes:
  "(\<not> path_exists (tree w) (py_truediv d REPO_NAME) \<longrightarrow>
      check_repository_updates L X d w = (Inr (NotInstalled ''Repository not found''), w))
   \<and> (path_exists (tree w) (py_truediv d REPO_NAME) \<and>
       \<not> is_dir (tree w) (py_truediv d REPO_NAME) \<longrightarrow>
      check_repository_updates L X d w =
        (Inr (StatusError (str_of_path (py_truediv d REPO_NAME))), w))
   \<and> (is_dir (tree w) (py_truediv d REPO_NAME) \<and>
       run_process X (trace w) git_fetch = Inr (rc0, out0) \<and>
       run_process X (trace w @ [Ran git_fetch]) git_rev_parse_head = Inr (rc1, out1) \<and>
       run_process X (trace w @ [Ran git_fetch, Ran git_rev_parse_head])
          git_rev_parse_remote = Inr (rc2, out2) \<and>
       current = (if rc1 = 0 then stdout_text out1 else []) \<and>
       remote = (if rc2 = 0 then stdout_text out2 else []) \<longrightarrow>
         (current = [] \<or> remote = [] \<longrightarrow>
            fst (check_repository_updates L X d w) =
              Inr (StatusError ''Could not determine commit status''))
       \<and> (current \<noteq> [] \<and> remote = current \<longrightarrow>
            fst (check_repository_updates L X d w) = Inr (UpToDate (take 8 current)))
       \<and> (current \<noteq> [] \<and> remote \<noteq> [] \<and> current \<noteq> remote \<and>
          run_process X (trace w @ [Ran git_fetch, Ran git_rev_parse_head,
             Ran git_rev_parse_remote]) (git_rev_list current remote) = Inr (rc3, out3) \<and>
          run_process X (trace w @ [Ran git_fetch, Ran git_rev_parse_head,
             Ran git_rev_parse_remote, Ran (git_rev_list current remote)]) git_log
            = Inr (rc4, out4) \<and>
          count = (if rc3 = 0 then int_of_str L (stdout_text out3) else Some 0) \<longrightarrow>
            fst (check_repository_updates L X d w) =
              Inr (case count of
                     Some n \<Rightarrow> UpdateAvailable (take 8 current) (take 8 remote) n
                                 (if rc4 = 0 then stdout_text out4 else ''No message'')
                   | None \<Rightarrow> StatusError ''invalid literal for int() with base 10'')))"
proof (intro conjI impI)
  assume "\<not> path_exists (tree w) (py_truediv d REPO_NAME)"
  then show "check_repository_updates L X d w = (Inr (NotInstalled ''Repository not found''), w)"
    by (rule check_not_installed)
next
  assume "path_exists (tree w) (py_truediv d REPO_NAME) \<and>
       \<not> is_dir (tree w) (py_truediv d REPO_NAME)"
  then show "check_repository_updates L X d w =
        (Inr (StatusError (str_of_path (py_truediv d REPO_NAME))), w)"
    using check_not_dir by blast
next
  assume a: "is_dir (tree w) (py_truediv d REPO_NAME) \<and>
       run_process X (trace w) git_fetch = Inr (rc0, out0) \<and>
       run_process X (trace w @ [Ran git_fetch]) git_rev_parse_head = Inr (rc1, out1) \<and>
       run_process X (trace w @ [Ran git_fetch, Ran git_rev_parse_head])
          git_rev_parse_remote = Inr (rc2, out2) \<and>
       current = (if rc1 = 0 then stdout_text out1 else []) \<and>
       remote = (if rc2 = 0 then stdout_text out2 else [])"
    and "current = [] \<or> remote = []"
  then show "fst (check_repository_updates L X d w) =
              Inr (StatusError ''Could not determine commit status'')"
    using check_updates_refs(1) [of w d X rc0 out0 rc1 out1 rc2 out2 current remote L] by blast
next
  assume a: "is_dir (tree w) (py_truediv d REPO_NAME) \<and>
       run_process X (trace w) git_fetch = Inr (rc0, out0) \<and>
       run_process X (trace w @ [Ran git_fetch]) git_rev_parse_head = Inr (rc1, out1) \<and>
       run_process X (trace w @ [Ran git_fetch, Ran git_rev_parse_head])
          git_rev_parse_remote = Inr (rc2, out2) \<and>
       current = (if rc1 = 0 then stdout_text out1 else []) \<and>
       remote = (if rc2 = 0 then stdout_text out2 else [])"
    and "current \<noteq> [] \<and> remote = current"
  then show "fst (check_repository_updates L X d w) = Inr (UpToDate (take 8 current))"
    using check_updates_refs(2) [of w d X rc0 out0 rc1 out1 rc2 out2 current remote L] by blast
next
  assume a: "is_dir (tree w) (py_truediv d REPO_NAME) \<and>
       run_process X (trace w) git_fetch = Inr (rc0, out0) \<and>
       run_process X (trace w @ [Ran git_fetch]) git_rev_parse_head = Inr (rc1, out1) \<and>
       run_process X (trace w @ [Ran git_fetch, Ran git_rev_parse_head])
          git_rev_parse_remote = Inr (rc2, out2) \<and>
       current = (if rc1 = 0 then stdout_text out1 else []) \<and>
       remote = (if rc2 = 0 then stdout_text out2 else [])"
    and b: "current \<noteq> [] \<and> remote \<noteq> [] \<and> current \<noteq> remote \<and>
          run_process X (trace w @ [Ran git_fetch, Ran git_rev_parse_head,
             Ran git_rev_parse_remote]) (git_rev_list current remote) = Inr (rc3, out3) \<and>
          run_process X (trace w @ [Ran git_fetch, Ran git_rev_parse_head,
             Ran git_rev_parse_remote, Ran (git_rev_list current remote)]) git_log
            = Inr (rc4, out4) \<and>
          count = (if rc3 = 0 then int_of_str L (stdout_text out3) else Some 0)"
  show "fst (check_repository_updates L X d w) =
              Inr (case count of
                     Some n \<Rightarrow> UpdateAvailable (take 8 current) (take 8 remote) n
                                 (if rc4 = 0 then stdout_text out4 else ''No message'')
                   | None \<Rightarrow> StatusError ''invalid literal for int() with base 10'')"
    using a b
      check_updates_refs(3) [of w d X rc0 out0 rc1 out1 rc2 out2 current remote rc3 out3 rc4 out4
        count L]
    by blast
qed


theorem check_repository_updates_outcomes_witness:
  "check_repository_updates example_lib example_ext example_script_dir
       \<lparr>tree = Map.empty, trace = []\<rparr>
     = (Inr (NotInstalled ''Repository not found''), \<lparr>tree = Map.empty, trace = []\<rparr>)
   \<and> fst (check_repository_updates example_lib (example_ext\<lparr>run_process := example_git_broken\<rparr>)
          example_script_dir example_world)
     = Inr (StatusError ''Could not determine commit status'')
   \<and> fst (check_repository_updates example_lib (example_ext\<lparr>run_process := example_git_same\<rparr>)
          example_script_dir example_world)
     = Inr (UpToDate ''01234567'')
   \<and> fst (check_repository_updates example_lib (example_ext\<lparr>run_process := example_git_behind\<rparr>)
          example_script_dir example_world)
     = Inr (UpdateAvailable ''11111111'' ''22222222'' 3 ''Fix the loader'')"
  using
    check_repository_updates_outcomes [where w = "\<lparr>tree = Map.empty, trace = []\<rparr>"
      and d = example_script_dir and L = example_lib and X = example_ext]
    check_repository_updates_outcomes [where w = example_world
      and d = example_script_dir and L = example_lib
      and X = "example_ext\<lparr>run_process := example_git_broken\<rparr>"
      and ?rc0.0 = 0 and ?out0.0 = "[]" and ?rc1.0 = 128
      and ?out1.0 = "[''fatal: not a git repository'' @ [CHR 0x0A]]"
      and ?rc2.0 = 0 and ?out2.0 = "[]" and current = "[]" and remote = "[]"]
    check_repository_updates_outcomes [where w = example_world
      and d = example_script_dir and L = example_lib
      and X = "example_ext\<lparr>run_process := example_git_same\<rparr>"
      and ?rc0.0 = 128 and ?out0.0 = "[''fatal: unable to access the remote'' @ [CHR 0x0A]]"
      and ?rc1.0 = 0 and ?out1.0 = "[''0123456789abcdef'' @ [CHR 0x0A]]"
      and ?rc2.0 = 0 and ?out2.0 = "[''0123456789abcdef'' @ [CHR 0x0A]]"
      and current = "''0123456789abcdef''" and remote = "''0123456789abcdef''"]
    check_repository_updates_outcomes [where w = example_world
      and d = example_script_dir and L = example_lib
      and X = "example_ext\<lparr>run_process := example_git_behind\<rparr>"
      and ?rc0.0 = 0 and ?out0.0 = "[]"
      and ?rc1.0 = 0 and ?out1.0 = "[''1111111111aaaaaa'' @ [CHR 0x0A]]"
      and ?rc2.0 = 0 and ?out2.0 = "[''2222222222bbbbbb'' @ [CHR 0x0A]]"
      and current = "''1111111111aaaaaa''" and remote = "''2222222222bbbbbb''"
      and ?rc3.0 = 0 and ?out3.0 = "[''3'' @ [CHR 0x0A]]"
      and ?rc4.0 = 0 and ?out4.0 = "[''Fix the loader'']" and count = "Some 3"]
  by (simp add: example_git_same_def example_git_behind_def example_git_broken_def
        git_defs str_defs stdout_text_def example_world_def example_tree_def
        example_script_dir_def py_truediv_REPO path_exists_def is_dir_def example_lib_def
        example_ext_def)

text \<open>
  Claim C8 as the specification states it fails twice.  A \<^verbatim>\<open>git fetch\<close> that fails
  (return code 128) is followed by the status \<^verbatim>\<open>up_to_date\<close>, not \<^verbatim>\<open>error\<close>; and when
  \<^verbatim>\<open>git\<close> cannot be started, \<^verbatim>\<open>run_command\<close> calls \<^verbatim>\<open>sys.exit(1)\<close>, which
  \<^verbatim>\<open>except Exception\<close> does not catch: the check ends the process.
\<close>

theorem version_control_failure_counterexample:
  "run_process (example_ext\<lparr>run_process := example_git_same\<rparr>) (trace example_world) git_fetch
     = Inr (128, [''fatal: unable to access the remote'' @ [CHR 0x0A]])
   \<and> fst (check_repository_updates example_lib (example_ext\<lparr>run_process := example_git_same\<rparr>)
          example_script_dir example_world)
     = Inr (UpToDate ''01234567'')
   \<and> run_process (example_ext\<lparr>run_process := example_git_missing\<rparr>) (trace example_world) git_fetch
     = Inl (Exception FileNotFoundError ''git'')
   \<and> fst (check_repository_updates example_lib (example_ext\<lparr>run_process := example_git_missing\<rparr>)
          example_script_dir example_world)
     = Inl (SystemExit 1)"
  by (simp add: check_repository_updates_def check_repository_body_def run_command_def
        example_git_same_def example_git_missing_def git_defs str_defs example_world_def
        example_tree_def example_script_dir_def py_truediv_REPO path_exists_def chdir_def
        Let_def example_lib_def)

section \<open>Properties of the update coordinator\<close>

lemma run_command_tree:
  assumes "run_command X c chk w = (r, w')"
  shows "tree w' = tree w"
  using assms
  by (auto simp: run_command_def split: sum.splits prod.splits if_splits)

lemma run_command_exit:
  assumes "run_command X c chk w = (Inl e, w')"
  shows "\<not> is_Exception e"
  using assms
  by (auto simp: run_command_def split: sum.splits prod.splits if_splits)

lemma log_tree: "tree (log l m w) = tree w"
  by (simp add: log_def)

lemma update_repository_body_outcome:
  assumes "update_repository_body X repo w = (r, w')"
  shows "tree w' = tree w"
  using assms
  by (auto simp: update_repository_body_def log_tree
        split: option.splits sum.splits prod.splits if_splits
        dest!: run_command_tree)

lemma update_repository_outcome:
  assumes "update_repository X d w = (r, w')"
  shows "tree w' = tree w" and "r = Inl e \<Longrightarrow> \<not> is_Exception e"
  using assms
  by (auto simp: update_repository_def log_tree
        split: option.splits sum.splits prod.splits if_splits
        dest!: update_repository_body_outcome)

lemma py_truediv_MODELS: "py_truediv d MODELS_DOWNLOAD_DIR = d @ [''zonos_download_models'']"
  by (simp add: py_truediv_def MODELS_DOWNLOAD_DIR_def)

lemma py_truediv_VERIFICATION:
  "py_truediv d MODEL_VERIFICATION_FILE = d @ [''model_verification.json'']"
  by (simp add: py_truediv_def MODEL_VERIFICATION_FILE_def)

lemma mkdirs_keeps:
  "mkdirs fs base cs = Some fs' \<Longrightarrow> length (base @ cs) < length p \<Longrightarrow> fs' p = fs p"
proof (induction cs arbitrary: fs base)
  case Nil
  then show ?case by simp
next
  case (Cons c cs)
  show ?case
  proof (cases "fs (base @ [c])")
    case None
    with Cons.prems have m: "mkdirs (add_dir fs base c) (base @ [c]) cs = Some fs'" by simp
    have "fs' p = add_dir fs base c p"
      using Cons.IH [OF m] Cons.prems(2) by simp
    moreover have "add_dir fs base c p = fs p"
      using Cons.prems(2) by (auto simp: add_dir_def split: option.splits node.splits)
    ultimately show ?thesis by simp
  next
    case (Some n)
    with Cons.prems obtain t es where n: "n = Dir t es"
      by (cases n) auto
    with Some Cons.prems have m: "mkdirs fs (base @ [c]) cs = Some fs'" by simp
    show ?thesis using Cons.IH [OF m] Cons.prems(2) by simp
  qed
qed

lemma ensure_keeps:
  "length directory < length p \<Longrightarrow> ensure_directory_permissions fs directory p = fs p"
  by (auto simp: ensure_directory_permissions_def split: option.splits
        dest: mkdirs_keeps [where base = "[]", simplified])

lemma download_models_exits:
  assumes "cfgs = (m, cfg) # rest"
      and "tree w (py_truediv models_dir MODEL_VERIFICATION_FILE) = None"
  shows "\<exists>e. fst (download_models L X cfgs models_dir w) = Inl e \<and> \<not> is_Exception e"
proof -
  let ?vf = "py_truediv models_dir MODEL_VERIFICATION_FILE"
  let ?t = "ensure_directory_permissions
              (setup_environment_variables (tree w) models_dir) models_dir"
  have "?t ?vf = None"
    using assms(2)
    by (simp add: ensure_keeps setup_environment_variables_def py_truediv_VERIFICATION)
  then have load: "load_verification_data L ?t ?vf = Inr (JObj [])"
    by (simp add: load_verification_data_def path_exists_def)
  show ?thesis
    using assms(1) load
    by (auto simp: download_models_def Let_def exit_on_exception_def
          verify_model_integrity_def get_model_cache_path_TypeError
          split: option.splits)
qed

lemma unlink_quietly_removes:
  assumes "\<not> is_dir fs p"
  shows "unlink_quietly fs p p = None"
  using assms
  by (auto simp: unlink_quietly_def is_dir_def parent_def split: option.splits node.splits)

lemma unlink_quietly_other:
  assumes "q \<noteq> p" "q \<noteq> parent p" "fs p \<noteq> None"
  shows "unlink_quietly fs p q = fs q"
  using assms
  by (auto simp: unlink_quietly_def split: option.splits node.splits)

lemma update_models_exits:
  assumes "cfgs = (m, cfg) # rest"
      and "is_dir (tree w) (py_truediv script_dir REPO_NAME)"
      and "\<not> is_dir (tree w)
             (py_truediv (py_truediv script_dir MODELS_DOWNLOAD_DIR) MODEL_VERIFICATION_FILE)"
  shows "\<exists>e. fst (update_models L X cfgs script_dir w) = Inl e \<and> \<not> is_Exception e"
proof -
  let ?md = "py_truediv script_dir MODELS_DOWNLOAD_DIR"
  let ?vf = "py_truediv ?md MODEL_VERIFICATION_FILE"
  let ?repo = "py_truediv script_dir REPO_NAME"
  let ?w1 = "if path_exists (tree w) ?vf
             then w\<lparr>tree := unlink_quietly (tree w) ?vf\<rparr> else w"
  have gone: "tree ?w1 ?vf = None"
    using assms(3) by (simp add: unlink_quietly_removes path_exists_def)
  have pv: "parent ?vf = script_dir @ [''zonos_download_models'']"
    by (simp add: py_truediv_MODELS py_truediv_VERIFICATION parent_def butlast_append)
  have "?repo \<noteq> ?vf" "?repo \<noteq> parent ?vf"
    by (simp_all add: pv py_truediv_REPO) (simp add: py_truediv_MODELS py_truediv_VERIFICATION)
  then have "tree ?w1 ?repo = tree w ?repo"
    by (simp add: unlink_quietly_other path_exists_def)
  then have cd: "chdir (tree ?w1) ?repo = None"
    using assms(2) is_dir_chdir [of "tree ?w1" ?repo] by (simp add: is_dir_def)
  from download_models_exits [OF assms(1) gone, of L X] obtain e where
    e: "fst (download_models L X cfgs ?md ?w1) = Inl e" "\<not> is_Exception e" by blast
  obtain w2 where d: "download_models L X cfgs ?md ?w1 = (Inl e, w2)"
    using e(1) by (cases "download_models L X cfgs ?md ?w1") auto
  have "fst (update_models L X cfgs script_dir w) = Inl e"
    unfolding update_models_def Let_def using cd d e(2) by simp
  with e(2) show ?thesis by blast
qed

text \<open>
  Claim C9 (coordinator apply order and independence): the coordinator is said to
  reach its final report whatever the sub-actions do, a failure of one being logged
  without blocking the other.  With the choice \<^verbatim>\<open>both\<close> on the registry of the
  script, whenever the repository directory exists and the verification file is no
  directory, the run does not return: after the repository refresh (which itself
  can end the process, when a command cannot be started), \<^verbatim>\<open>update_models\<close> calls
  \<^verbatim>\<open>download_models\<close>, which answers its failure with \<^verbatim>\<open>sys.exit(1)\<close>, and
  \<^verbatim>\<open>SystemExit\<close> passes through the handler \<^verbatim>\<open>except Exception\<close> of
  \<^verbatim>\<open>update_models\<close> and through \<^verbatim>\<open>update_zonos\<close>.  Neither the failure of the
  model refresh nor the final report is logged.
\<close>

theorem model_refresh_failure_ends_update:
  assumes "is_dir (tree w) (py_truediv script_dir REPO_NAME)"
      and "\<not> is_dir (tree w)
             (py_truediv (py_truediv script_dir MODELS_DOWNLOAD_DIR) MODEL_VERIFICATION_FILE)"
  shows "\<exists>e. fst (apply_updates L X MODEL_CONFIGS script_dir ''both'' w) = Inl e \<and>
             \<not> is_Exception e"
proof -
  obtain r w1 where u: "update_repository X script_dir w = (r, w1)"
    by (cases "update_repository X script_dir w")
  note out = update_repository_outcome [OF u]
  show ?thesis
  proof (cases r)
    case (Inl e)
    with u out(2) show ?thesis by (auto simp: apply_updates_def)
  next
    case (Inr ok)
    let ?w1' = "if ok then log ''INFO'' ''Repository update completed successfully!'' w1
                else log ''ERROR'' ''Repository update failed!'' w1"
    have t: "tree ?w1' = tree w" using out(1) by (simp add: log_tree)
    obtain m cfg rest where c: "MODEL_CONFIGS = (m, cfg) # rest"
      by (simp add: MODEL_CONFIGS_def)
    from update_models_exits [OF c, of ?w1' script_dir L X] assms t
    obtain e where e: "fst (update_models L X MODEL_CONFIGS script_dir ?w1') = Inl e"
      "\<not> is_Exception e" by auto
    obtain w2 where "update_models L X MODEL_CONFIGS script_dir ?w1' = (Inl e, w2)"
      using e(1) by (cases "update_models L X MODEL_CONFIGS script_dir ?w1'") auto
    with u Inr e(2) show ?thesis
      by (auto simp: apply_updates_def)
  qed
qed


theorem model_refresh_failure_ends_update_witness:
  "is_dir (tree example_world) (py_truediv example_script_dir REPO_NAME)
   \<and> \<not> is_dir (tree example_world)
        (py_truediv (py_truediv example_script_dir MODELS_DOWNLOAD_DIR) MODEL_VERIFICATION_FILE)
   \<and> fst (apply_updates example_lib example_ext MODEL_CONFIGS example_script_dir ''both''
            example_world) = Inl (SystemExit 1)
   \<and> trace (snd (apply_updates example_lib example_ext MODEL_CONFIGS example_script_dir ''both''
            example_world))
     = [Ran git_stash, Ran git_pull, Ran uv_sync, Ran uv_sync_compile,
        Logged ''INFO'' ''Repository update completed successfully!'']"
proof -
  have d: "is_dir (tree example_world) (py_truediv example_script_dir REPO_NAME)"
    by (simp add: is_dir_def example_world_def example_tree_def example_script_dir_def
          py_truediv_REPO)
  have v: "\<not> is_dir (tree example_world)
        (py_truediv (py_truediv example_script_dir MODELS_DOWNLOAD_DIR) MODEL_VERIFICATION_FILE)"
    by (simp add: is_dir_def example_world_def example_tree_def example_script_dir_def
          example_cache_def py_truediv_MODELS py_truediv_VERIFICATION)
  show ?thesis
    using d v model_refresh_failure_ends_update [OF d v, of example_lib example_ext]
    by (simp add: apply_updates_def update_repository_def update_repository_body_def
          run_command_def update_models_def download_models_def Let_def log_def
          setup_environment_variables_def ensure_directory_permissions_def
          load_verification_data_def exit_on_exception_def verify_model_integrity_def
          get_model_cache_path_TypeError MODEL_CONFIGS_def
          example_ext_def example_world_def example_tree_def example_script_dir_def
          example_cache_def py_truediv_REPO py_truediv_MODELS py_truediv_VERIFICATION
          path_exists_def chdir_def is_dir_def)
qed

text \<open>
  The whole of \<^verbatim>\<open>update_zonos\<close> on an installation that is three commits behind
  and has a verification document, the operator answering \<^verbatim>\<open>both\<close>: both checks
  report an update (each probe succeeds and each verification raises, which counts
  as \<^verbatim>\<open>check_failed\<close>), the repository refresh succeeds and is reported, and the
  model refresh ends the process.
\<close>

lemma update_zonos_both_exits:
  "fst (update_zonos installed_lib (example_ext\<lparr>run_process := example_git_behind\<rparr>)
          MODEL_CONFIGS example_script_dir \<lparr>tree = installed_tree, trace = []\<rparr>)
     = Inl (SystemExit 1)
   \<and> trace (snd (update_zonos installed_lib (example_ext\<lparr>run_process := example_git_behind\<rparr>)
          MODEL_CONFIGS example_script_dir \<lparr>tree = installed_tree, trace = []\<rparr>))
     = [Ran git_fetch, Ran git_rev_parse_head, Ran git_rev_parse_remote,
        Ran (git_rev_list ''1111111111aaaaaa'' ''2222222222bbbbbb''), Ran git_log,
        ProbeCall ''Zyphra/Zonos-v0.1-hybrid'', ProbeCall ''Zyphra/Zonos-v0.1-transformer'',
        Ran git_stash, Ran git_pull, Ran uv_sync, Ran uv_sync_compile,
        Logged ''INFO'' ''Repository update completed successfully!'']"
  by (simp add: update_zonos_def check_repository_updates_def check_repository_body_def
        check_model_updates_def py_truthy_def
        apply_updates_def update_repository_def update_repository_body_def
        run_command_def update_models_def download_models_def Let_def log_def
        setup_environment_variables_def ensure_directory_permissions_def
        load_verification_data_def read_file_def exit_on_exception_def
        verify_model_integrity_def unlink_quietly_def parent_def path_name_def
        get_model_cache_path_TypeError MODEL_CONFIGS_def
        example_git_behind_def git_defs git_stash_def git_pull_def uv_sync_def
        uv_sync_compile_def str_defs str_lower_def char_lower_def
        installed_lib_def example_lib_def
        example_ext_def installed_tree_def example_script_dir_def
        example_cache_def py_truediv_REPO py_truediv_MODELS py_truediv_VERIFICATION
        path_exists_def chdir_def is_dir_def)

text \<open>
  The escape does not depend on the defect of the resolver: for any registry, an
  exit of \<^verbatim>\<open>download_models\<close> is the result of \<^verbatim>\<open>update_models\<close>.
\<close>

lemma update_models_exit_escapes:
  assumes "is_dir (tree w) (py_truediv script_dir REPO_NAME)"
      and "download_models L X cfgs (py_truediv script_dir MODELS_DOWNLOAD_DIR)
             (if path_exists (tree w)
                   (py_truediv (py_truediv script_dir MODELS_DOWNLOAD_DIR) MODEL_VERIFICATION_FILE)
              then w\<lparr>tree := unlink_quietly (tree w)
                   (py_truediv (py_truediv script_dir MODELS_DOWNLOAD_DIR) MODEL_VERIFICATION_FILE)\<rparr>
              else w) = (Inl (SystemExit n), w')"
  shows "update_models L X cfgs script_dir w = (Inl (SystemExit n), w')"
proof -
  let ?md = "py_truediv script_dir MODELS_DOWNLOAD_DIR"
  let ?vf = "py_truediv ?md MODEL_VERIFICATION_FILE"
  let ?repo = "py_truediv script_dir REPO_NAME"
  let ?w1 = "if path_exists (tree w) ?vf
             then w\<lparr>tree := unlink_quietly (tree w) ?vf\<rparr> else w"
  have pv: "parent ?vf = script_dir @ [''zonos_download_models'']"
    by (simp add: py_truediv_MODELS py_truediv_VERIFICATION parent_def butlast_append)
  have "?repo \<noteq> ?vf" "?repo \<noteq> parent ?vf"
    by (simp_all add: pv py_truediv_REPO) (simp add: py_truediv_MODELS py_truediv_VERIFICATION)
  then have "tree ?w1 ?repo = tree w ?repo"
    by (simp add: unlink_quietly_other path_exists_def)
  then have cd: "chdir (tree ?w1) ?repo = None"
    using assms(1) is_dir_chdir [of "tree ?w1" ?repo] by (simp add: is_dir_def)
  show ?thesis
    unfolding update_models_def Let_def using cd assms(2) by simp
qed

end
